theory Spec2Isabelle
  imports Complex_Main "HOL-Library.Word" "HOL-Library.Multiset" "HOL-Library.Log_Nat"
begin

section \<open>Semi-global matching engine (depthMap/Sgm.cpp)\<close>

text \<open>
  A shallow embedding of the class \<^verbatim>\<open>Sgm\<close>: its constructor, the two memory
  queries and \<^verbatim>\<open>sgmRc\<close> with the three stages it calls. The engine object is a
  record that every member function takes and returns. The CUDA side (buffer classes,
  kernels, camera cache) lives outside this file of the repository; each such part is
  either a field of the record \<open>device\<close> below or a definition marked as modelled from
  the specification.
\<close>

subsection \<open>Values and parameters\<close>

text \<open>
  Modelled from the spec: the declaration of \<^verbatim>\<open>TSim\<close> is missing. The specification
  describes a quantized cost in a fixed range where 255 is the worst score and lower is
  better, so a cell is an unsigned byte. \<^verbatim>\<open>TSimAcc\<close>, the accumulation type of the
  slice buffers, is an unsigned 32-bit value; only its byte size is ever used.
\<close>

type_synonym TSim = "8 word"
type_synonym TSimAcc = "32 word"

text \<open>
  Camera ids, extents, indices and the configuration's factors are natural numbers. The
  source holds them in \<^verbatim>\<open>int\<close> and \<^verbatim>\<open>size_t\<close>; image extents, depth counts and
  buffer sizes that fit a device stay far below the bounds of these types.
\<close>

record Range =
  range_begin :: nat
  range_end :: nat

record ROI =
  roi_x :: Range
  roi_y :: Range

record Tile =
  rc :: nat
  sgmTCams :: "nat list"
  roi :: ROI
  nbTiles :: nat

record TileParams =
  tp_width :: nat
  tp_height :: nat

record SgmParams =
  scale :: nat
  stepXY :: nat
  maxDepths :: nat
  doSgmOptimizeVolume :: bool
  exportIntermediateResults :: bool
  filteringAxes :: string

record MultiViewParams =
  getViewId :: "nat \<Rightarrow> nat"
  ncams :: nat

text \<open>
  \<^verbatim>\<open>SgmDepthList\<close>: the depth hypotheses of the tile and, per target camera, the
  pair (first depth index, number of depths) read as \<^verbatim>\<open>getDepthsTcLimits()[tci].x\<close>
  and \<^verbatim>\<open>.y\<close>.
\<close>

record SgmDepthList =
  getDepths :: "real list"
  getDepthsTcLimits :: "(nat \<times> nat) list"

text \<open>A camera held by the device cache is identified by its key (camera id, scale).\<close>

type_synonym DeviceCamera = "nat \<times> nat"

subsection \<open>Device buffers\<close>

text \<open>
  Modelled from the spec: \<^verbatim>\<open>CudaDeviceMemoryPitched\<close> and \<^verbatim>\<open>CudaHostMemoryHeap\<close>
  are missing. A buffer has its extent per dimension, the allocated bytes per row (the
  specification: padding reflects device-allocator row alignment for 2-D/3-D arrays), the
  byte size of one element and its cells, addressed by the index list (x, y) or (x, y, z).
  Cells are a total function, so an access beyond the extent (undefined behaviour in the
  source) reads or writes a cell of its own and never another buffer.
\<close>

record 'a CudaMemory =
  getSize :: "nat list"
  getPitch :: nat
  sizeofT :: nat
  content :: "nat list \<Rightarrow> 'a"

text \<open>
  What the source leaves to the device: the row pitch chosen by the allocator, the
  contents of freshly allocated memory, \<^verbatim>\<open>downscaleROI\<close>, and the per-cell formulas
  of the three kernels (matching cost, aggregated cost with its scratch data, best
  depth), which the specification treats as external policies.
\<close>

record device =
  pitchOf :: "nat \<Rightarrow> nat"
  freshFloat :: "nat list \<Rightarrow> real"
  freshFloat2 :: "nat list \<Rightarrow> real \<times> real"
  freshTSim :: "nat list \<Rightarrow> TSim"
  freshTSimAcc :: "nat list \<Rightarrow> TSimAcc"
  downscaleROI :: "ROI \<Rightarrow> nat \<Rightarrow> ROI"
  similarity :: "(nat list \<Rightarrow> real) \<Rightarrow> DeviceCamera \<Rightarrow> DeviceCamera \<Rightarrow> SgmParams
                 \<Rightarrow> Range \<Rightarrow> ROI \<Rightarrow> nat list \<Rightarrow> TSim"
  aggregate :: "(nat list \<Rightarrow> TSim) \<Rightarrow> DeviceCamera \<Rightarrow> SgmParams \<Rightarrow> nat \<Rightarrow> ROI
                 \<Rightarrow> nat list \<Rightarrow> TSim"
  aggregateScratch :: "nat \<Rightarrow> (nat list \<Rightarrow> TSimAcc) \<Rightarrow> (nat list \<Rightarrow> TSim) \<Rightarrow> DeviceCamera
                 \<Rightarrow> SgmParams \<Rightarrow> nat \<Rightarrow> ROI \<Rightarrow> nat list \<Rightarrow> TSimAcc"
  bestDepth :: "(nat list \<Rightarrow> real) \<Rightarrow> (nat list \<Rightarrow> TSim) \<Rightarrow> DeviceCamera \<Rightarrow> SgmParams
                 \<Rightarrow> Range \<Rightarrow> ROI \<Rightarrow> nat list \<Rightarrow> real \<times> real"

text \<open>
  Modelled from the spec: the element types of the buffers are declared in the missing
  header. The byte sizes are those of \<^verbatim>\<open>float\<close>, of \<^verbatim>\<open>float2\<close> (a pair of
  floats), of an unsigned byte and of an unsigned 32-bit integer.
\<close>

definition sizeof_float :: nat where
  "sizeof_float = 4"

definition sizeof_float2 :: nat where
  "sizeof_float2 = 8"

definition sizeof_TSim :: nat where
  "sizeof_TSim = 1"

definition sizeof_TSimAcc :: nat where
  "sizeof_TSimAcc = 4"

text \<open>
  Modelled from the spec: the default constructor of the buffer classes is missing. A
  default-constructed buffer has nothing allocated; every extent is zero.
\<close>

definition unallocated :: "nat \<Rightarrow> (nat list \<Rightarrow> 'a) \<Rightarrow> 'a CudaMemory" where
  "unallocated sz fresh = \<lparr>getSize = [0, 0], getPitch = 0, sizeofT = sz, content = fresh\<rparr>"

text \<open>
  Modelled from the spec: \<^verbatim>\<open>CudaDeviceMemoryPitched::allocate\<close> is missing. The buffer
  takes the extent asked for; its rows are padded to the pitch the device allocator
  chooses for their byte length. The cells hold whatever fresh memory holds.
\<close>

definition allocate :: "device \<Rightarrow> nat \<Rightarrow> nat list \<Rightarrow> (nat list \<Rightarrow> 'a) \<Rightarrow> 'a CudaMemory" where
  "allocate dev sz dims fresh =
     \<lparr>getSize = dims, getPitch = pitchOf dev (hd dims * sz), sizeofT = sz, content = fresh\<rparr>"

text \<open>
  Modelled from the spec: \<^verbatim>\<open>CudaHostMemoryHeap::allocate\<close> is missing. Host memory
  has no row padding: the pitch is the byte length of a row.
\<close>

definition allocateHost :: "nat \<Rightarrow> nat list \<Rightarrow> (nat list \<Rightarrow> 'a) \<Rightarrow> 'a CudaMemory" where
  "allocateHost sz dims fresh =
     \<lparr>getSize = dims, getPitch = hd dims * sz, sizeofT = sz, content = fresh\<rparr>"

text \<open>
  Modelled from the spec: \<^verbatim>\<open>getBytesPadded\<close> and \<^verbatim>\<open>getBytesUnpadded\<close> are
  missing. The padded size counts whole rows of pitch bytes, the unpadded size the
  elements alone.
\<close>

definition getBytesPadded :: "'a CudaMemory \<Rightarrow> nat" where
  "getBytesPadded b = getPitch b * prod_list (tl (getSize b))"

definition getBytesUnpadded :: "'a CudaMemory \<Rightarrow> nat" where
  "getBytesUnpadded b = prod_list (getSize b) * sizeofT b"

text \<open>
  Modelled from the spec: \<^verbatim>\<open>copyFrom\<close> is missing. The specification's "copy best
  into secondBest" and "copy secondBest into best unchanged": the destination takes the
  cells of the source and keeps its own allocation. Every pair of buffers the engine
  copies between is allocated with one and the same extent.
\<close>

definition copyFrom :: "'a CudaMemory \<Rightarrow> 'a CudaMemory \<Rightarrow> 'a CudaMemory" where
  "copyFrom dst src = dst\<lparr>content := content src\<rparr>"

subsection \<open>The engine object\<close>

datatype error = NoDepthsOrNoTCams nat

text \<open>
  The members of \<^verbatim>\<open>Sgm\<close>. The execution stream is left out: every operation of one
  engine is issued on one stream and runs in issue order. Two further fields record what
  the engine's code does outside its members. \<open>cacheRequests\<close> is the engine's view of
  the process-wide \<^verbatim>\<open>DeviceCache\<close>: the keys it has requested, oldest first.
  \<open>allocationLog\<close> lists every buffer allocation that the code of this file makes, in
  the constructor or while a tile is processed, oldest first, as the name of the buffer
  variable and its extent. What the kernels and the file writers that it calls allocate
  inside themselves is not listed.
\<close>

record Sgm =
  mp :: MultiViewParams
  tileParams :: TileParams
  sgmParams :: SgmParams
  depths_hmh :: "real CudaMemory"
  depths_dmp :: "real CudaMemory"
  depthSimMap_dmp :: "(real \<times> real) CudaMemory"
  volumeBestSim_dmp :: "TSim CudaMemory"
  volumeSecBestSim_dmp :: "TSim CudaMemory"
  volumeSliceAccA_dmp :: "TSimAcc CudaMemory"
  volumeSliceAccB_dmp :: "TSimAcc CudaMemory"
  volumeAxisAcc_dmp :: "TSimAcc CudaMemory"
  cacheRequests :: "DeviceCamera list"
  allocationLog :: "(string \<times> nat list) list"

text \<open>
  Line 32 multiplies \<^verbatim>\<open>scale\<close> and \<^verbatim>\<open>stepXY\<close> in \<^verbatim>\<open>int\<close>. A product outside
  the 32-bit range is undefined in C++; the result written out here is the
  two's-complement one.
\<close>

definition int_mul :: "int \<Rightarrow> int \<Rightarrow> int" where
  "int_mul a b = (a * b + 2 ^ 31) mod 2 ^ 32 - 2 ^ 31"

text \<open>
  Single precision. \<open>rne\<close> rounds to the nearest integer, a tie to the even one.
  \<open>f32_mag\<close> rounds a positive real to 24 significant bits: with \<open>fl\<close> the bit length
  of the integer part of \<open>a * 2 ^ 64\<close>, the binary exponent of \<open>a\<close> is \<open>fl - 65\<close> and
  the unit in the last place is \<open>2 ^ fl / 2 ^ 88\<close>. This is the IEEE rounding for the
  magnitudes between \<open>2 ^ -64\<close> and \<open>2 ^ 127\<close>, which contain every quotient of two
  nonzero \<^verbatim>\<open>int\<close> values; \<open>f32\<close> extends it by the sign and by zero.
\<close>

definition rne :: "real \<Rightarrow> int" where
  "rne y =
    (let f = \<lfloor>y\<rfloor>; r = y - of_int f
     in if r < 1 / 2 then f else if 1 / 2 < r then f + 1 else if even f then f else f + 1)"

definition f32_mag :: "real \<Rightarrow> real" where
  "f32_mag a =
    (let fl = floorlog 2 (nat \<lfloor>a * 2 ^ 64\<rfloor>)
     in of_int (rne (a * 2 ^ 88 / 2 ^ fl)) * 2 ^ fl / 2 ^ 88)"

definition f32 :: "real \<Rightarrow> real" where
  "f32 x = (if x = 0 then 0 else sgn x * f32_mag \<bar>x\<bar>)"

text \<open>
  \<^verbatim>\<open>std::ceil(tileParams.width / float(downscale))\<close> converted to \<^verbatim>\<open>int\<close>: the
  \<^verbatim>\<open>int\<close> downscale is converted to single precision, the \<^verbatim>\<open>int\<close> extent is
  converted for the division, the quotient is rounded to single precision, and its
  ceiling is an integer. A downscale of 0 divides by zero, and a ceiling beyond the
  \<^verbatim>\<open>int\<close> range does not convert; both are undefined in the source and carry no
  meaning here.
\<close>

definition maxTileDim :: "nat \<Rightarrow> int \<Rightarrow> int" where
  "maxTileDim extent downscale = \<lceil>f32 (f32 (real extent) / f32 (of_int downscale))\<rceil>"

text \<open>The conversion of an \<^verbatim>\<open>int\<close> to the \<^verbatim>\<open>size_t\<close> of an extent.\<close>

definition size_t_of_int :: "int \<Rightarrow> nat" where
  "size_t_of_int v = nat (v mod 2 ^ 64)"

text \<open>The constructor \<^verbatim>\<open>Sgm::Sgm\<close>.\<close>

definition Sgm :: "device \<Rightarrow> MultiViewParams \<Rightarrow> TileParams \<Rightarrow> SgmParams \<Rightarrow> Sgm" where
  "Sgm dev mvp tp sp =
    (let downscale = int_mul (int (scale sp)) (int (stepXY sp));
         maxTileWidth = maxTileDim (tp_width tp) downscale;
         maxTileHeight = maxTileDim (tp_height tp) downscale;
         depthsDim = [maxDepths sp, 1];
         mapDim = [size_t_of_int maxTileWidth, size_t_of_int maxTileHeight];
         volDim = [size_t_of_int maxTileWidth, size_t_of_int maxTileHeight, maxDepths sp];
         maxTileSide = size_t_of_int (max maxTileWidth maxTileHeight)
     in \<lparr>mp = mvp, tileParams = tp, sgmParams = sp,
         depths_hmh = allocateHost sizeof_float depthsDim (freshFloat dev),
         depths_dmp = allocate dev sizeof_float depthsDim (freshFloat dev),
         depthSimMap_dmp = allocate dev sizeof_float2 mapDim (freshFloat2 dev),
         volumeBestSim_dmp = allocate dev sizeof_TSim volDim (freshTSim dev),
         volumeSecBestSim_dmp = allocate dev sizeof_TSim volDim (freshTSim dev),
         volumeSliceAccA_dmp =
           (if doSgmOptimizeVolume sp
            then allocate dev sizeof_TSimAcc [maxTileSide, maxDepths sp] (freshTSimAcc dev)
            else unallocated sizeof_TSimAcc (freshTSimAcc dev)),
         volumeSliceAccB_dmp =
           (if doSgmOptimizeVolume sp
            then allocate dev sizeof_TSimAcc [maxTileSide, maxDepths sp] (freshTSimAcc dev)
            else unallocated sizeof_TSimAcc (freshTSimAcc dev)),
         volumeAxisAcc_dmp =
           (if doSgmOptimizeVolume sp
            then allocate dev sizeof_TSimAcc [maxTileSide, 1] (freshTSimAcc dev)
            else unallocated sizeof_TSimAcc (freshTSimAcc dev)),
         cacheRequests = [],
         allocationLog =
           [(''_depths_hmh'', depthsDim), (''_depths_dmp'', depthsDim),
            (''_depthSimMap_dmp'', mapDim), (''_volumeBestSim_dmp'', volDim),
            (''_volumeSecBestSim_dmp'', volDim)]
           @ (if doSgmOptimizeVolume sp
              then [(''_volumeSliceAccA_dmp'', [maxTileSide, maxDepths sp]),
                    (''_volumeSliceAccB_dmp'', [maxTileSide, maxDepths sp]),
                    (''_volumeAxisAcc_dmp'', [maxTileSide, 1])]
              else [])\<rparr>)"

subsection \<open>Memory queries\<close>

text \<open>
  The \<^verbatim>\<open>size_t\<close> accumulator of the two queries. An engine exists only if its
  constructor obtained every allocation, and each addend is the byte size of one of
  these allocations, all of them live together in one 64-bit address space. The sum
  therefore stays below \<open>2 ^ 64\<close>, cannot wrap around, and is computed in \<open>nat\<close>.
\<close>

definition deviceBytesPadded :: "Sgm \<Rightarrow> nat" where
  "deviceBytesPadded s =
     getBytesPadded (depths_dmp s) + getBytesPadded (depthSimMap_dmp s)
     + getBytesPadded (volumeBestSim_dmp s) + getBytesPadded (volumeSecBestSim_dmp s)
     + (if doSgmOptimizeVolume (sgmParams s)
        then getBytesPadded (volumeSliceAccA_dmp s) + getBytesPadded (volumeSliceAccB_dmp s)
             + getBytesPadded (volumeAxisAcc_dmp s)
        else 0)"

definition deviceBytesUnpadded :: "Sgm \<Rightarrow> nat" where
  "deviceBytesUnpadded s =
     getBytesUnpadded (depths_dmp s) + getBytesUnpadded (depthSimMap_dmp s)
     + getBytesUnpadded (volumeBestSim_dmp s) + getBytesUnpadded (volumeSecBestSim_dmp s)
     + (if doSgmOptimizeVolume (sgmParams s)
        then getBytesUnpadded (volumeSliceAccA_dmp s) + getBytesUnpadded (volumeSliceAccB_dmp s)
             + getBytesUnpadded (volumeAxisAcc_dmp s)
        else 0)"

text \<open>The returned \<^verbatim>\<open>double\<close> is taken as the exact quotient.\<close>

definition getDeviceMemoryConsumption :: "Sgm \<Rightarrow> real" where
  "getDeviceMemoryConsumption s = real (deviceBytesPadded s) / (1024 * 1024)"

definition getDeviceMemoryConsumptionUnpadded :: "Sgm \<Rightarrow> real" where
  "getDeviceMemoryConsumptionUnpadded s = real (deviceBytesUnpadded s) / (1024 * 1024)"

subsection \<open>Kernels and the camera cache\<close>

text \<open>
  Modelled from the spec: \<^verbatim>\<open>DeviceCache::requestCamera\<close> is missing. The cache maps
  the key (camera id, scale) to a resident camera; a request returns the handle for its
  key, and the key is recorded.
\<close>

definition requestCamera :: "nat \<Rightarrow> nat \<Rightarrow> Sgm \<Rightarrow> DeviceCamera \<times> Sgm" where
  "requestCamera cam sc s = ((cam, sc), s\<lparr>cacheRequests := cacheRequests s @ [(cam, sc)]\<rparr>)"

text \<open>
  Modelled from the spec: \<^verbatim>\<open>Range\<close> and \<^verbatim>\<open>ROI\<close> are declared elsewhere. A range
  is the half-open interval from its begin to its end.
\<close>

definition range_size :: "Range \<Rightarrow> nat" where
  "range_size r = range_end r - range_begin r"

text \<open>
  The cells of a volume that belong to a tile and a depth range: x and y inside the
  downscaled region, z inside the range.
\<close>

definition inTile :: "ROI \<Rightarrow> Range \<Rightarrow> nat list \<Rightarrow> bool" where
  "inTile r dr idx =
     (case idx of
        [vx, vy, vz] \<Rightarrow> vx < range_size (roi_x r) \<and> vy < range_size (roi_y r)
                        \<and> range_begin dr \<le> vz \<and> vz < range_end dr
      | _ \<Rightarrow> False)"

definition inTileMap :: "ROI \<Rightarrow> nat list \<Rightarrow> bool" where
  "inTileMap r idx =
     (case idx of
        [vx, vy] \<Rightarrow> vx < range_size (roi_x r) \<and> vy < range_size (roi_y r)
      | _ \<Rightarrow> False)"

text \<open>
  Modelled from the spec: \<^verbatim>\<open>cuda_volumeInitialize\<close> is missing. "Resets both volumes
  to the worst score (255)": every cell of the buffer takes the value.
\<close>

definition cuda_volumeInitialize :: "TSim CudaMemory \<Rightarrow> TSim \<Rightarrow> TSim CudaMemory" where
  "cuda_volumeInitialize vol v = vol\<lparr>content := (\<lambda>idx. v)\<rparr>"

text \<open>
  Modelled from the spec: \<^verbatim>\<open>cuda_volumeComputeSimilarity\<close> is missing. The two
  volumes track "the two lowest per-(pixel, depth) costs seen across processed target
  cameras". One call handles one target camera: in every cell of the tile whose depth
  index lies in that camera's range, the camera's cost \<open>c\<close> enters the pair (best, second
  best); all other cells are left as they are. A first cost goes to the best volume
  alone, which is why \<^verbatim>\<open>sgmRc\<close> remarks that with one target camera "the second
  best volume has no valid similarity values".
\<close>

definition fuseBest :: "TSim \<Rightarrow> TSim \<Rightarrow> TSim" where
  "fuseBest c b = (if c < b then c else b)"

definition fuseSecBest :: "TSim \<Rightarrow> TSim \<Rightarrow> TSim \<Rightarrow> TSim" where
  "fuseSecBest c b sb = (if c < b then b else if c < sb then c else sb)"

definition cuda_volumeComputeSimilarity ::
  "device \<Rightarrow> TSim CudaMemory \<Rightarrow> TSim CudaMemory \<Rightarrow> real CudaMemory \<Rightarrow> DeviceCamera
   \<Rightarrow> DeviceCamera \<Rightarrow> SgmParams \<Rightarrow> Range \<Rightarrow> ROI \<Rightarrow> TSim CudaMemory \<times> TSim CudaMemory" where
  "cuda_volumeComputeSimilarity dev best secBest depths rcCam tcCam sp dr r =
    (let cost = similarity dev (content depths) rcCam tcCam sp dr r
     in (best\<lparr>content := (\<lambda>idx. if inTile r dr idx
                                   then fuseBest (cost idx) (content best idx)
                                   else content best idx)\<rparr>,
         secBest\<lparr>content := (\<lambda>idx. if inTile r dr idx
                                      then fuseSecBest (cost idx) (content best idx)
                                             (content secBest idx)
                                      else content secBest idx)\<rparr>))"

text \<open>
  Modelled from the spec: \<^verbatim>\<open>cuda_volumeOptimize\<close> is missing. Its input is the fused
  cost volume, its product a regularized volume for the cells of the tile over the depth
  indices below the number of hypotheses; the three accumulation buffers hold its
  intermediate data. Cells of the output buffer outside the tile keep their contents.
  The result is (output volume, slice A, slice B, axis accumulation).
\<close>

definition cuda_volumeOptimize ::
  "device \<Rightarrow> TSim CudaMemory \<Rightarrow> TSimAcc CudaMemory \<Rightarrow> TSimAcc CudaMemory \<Rightarrow> TSimAcc CudaMemory
   \<Rightarrow> TSim CudaMemory \<Rightarrow> DeviceCamera \<Rightarrow> SgmParams \<Rightarrow> nat \<Rightarrow> ROI
   \<Rightarrow> TSim CudaMemory \<times> TSimAcc CudaMemory \<times> TSimAcc CudaMemory \<times> TSimAcc CudaMemory" where
  "cuda_volumeOptimize dev out sliceA sliceB axisAcc inVol rcCam sp depthsSize r =
    (out\<lparr>content := (\<lambda>idx. if inTile r \<lparr>range_begin = 0, range_end = depthsSize\<rparr> idx
                             then aggregate dev (content inVol) rcCam sp depthsSize r idx
                             else content out idx)\<rparr>,
     sliceA\<lparr>content :=
       aggregateScratch dev 0 (content sliceA) (content inVol) rcCam sp depthsSize r\<rparr>,
     sliceB\<lparr>content :=
       aggregateScratch dev 1 (content sliceB) (content inVol) rcCam sp depthsSize r\<rparr>,
     axisAcc\<lparr>content :=
       aggregateScratch dev 2 (content axisAcc) (content inVol) rcCam sp depthsSize r\<rparr>)"

text \<open>
  Modelled from the spec: \<^verbatim>\<open>cuda_volumeRetrieveBestDepth\<close> is missing. From the final
  cost volume and the hypothesis array it writes one (depth, similarity) pair per pixel
  of the tile into the output map.
\<close>

definition cuda_volumeRetrieveBestDepth ::
  "device \<Rightarrow> (real \<times> real) CudaMemory \<Rightarrow> real CudaMemory \<Rightarrow> TSim CudaMemory \<Rightarrow> DeviceCamera
   \<Rightarrow> SgmParams \<Rightarrow> Range \<Rightarrow> ROI \<Rightarrow> (real \<times> real) CudaMemory" where
  "cuda_volumeRetrieveBestDepth dev out depths vol rcCam sp dr r =
     out\<lparr>content := (\<lambda>idx. if inTileMap r idx
                             then bestDepth dev (content depths) (content vol) rcCam sp dr r idx
                             else content out idx)\<rparr>"

subsection \<open>Processing one tile\<close>

text \<open>
  The depth range of target camera number \<open>tci\<close>: first depth index and one past the
  last. The depth list carries one limit per target camera; the source reads the limits
  with an unchecked \<^verbatim>\<open>operator[]\<close>, so a shorter list is undefined behaviour there.
\<close>

definition tcDepthRange :: "SgmDepthList \<Rightarrow> nat \<Rightarrow> Range" where
  "tcDepthRange dl tci =
    (let firstDepth = fst (getDepthsTcLimits dl ! tci);
         lastDepth = firstDepth + snd (getDepthsTcLimits dl ! tci)
     in \<lparr>range_begin = firstDepth, range_end = lastDepth\<rparr>)"

text \<open>
  One round of the loop over the target cameras in \<^verbatim>\<open>computeSimilarityVolumes\<close>.
  \<^verbatim>\<open>sgmTCams.at(tci)\<close> is in range by the loop bound.
\<close>

definition computeSimilarityVolumes_tc ::
  "device \<Rightarrow> Tile \<Rightarrow> SgmDepthList \<Rightarrow> ROI \<Rightarrow> DeviceCamera \<Rightarrow> nat \<Rightarrow> Sgm \<Rightarrow> Sgm" where
  "computeSimilarityVolumes_tc dev tile dl downscaledRoi rcDeviceCamera tci s =
    (let tc = sgmTCams tile ! tci;
         (tcDeviceCamera, s1) = requestCamera tc (scale (sgmParams s)) s;
         (best, secBest) =
           cuda_volumeComputeSimilarity dev (volumeBestSim_dmp s1) (volumeSecBestSim_dmp s1)
             (depths_dmp s1) rcDeviceCamera tcDeviceCamera (sgmParams s1) (tcDepthRange dl tci)
             downscaledRoi
     in s1\<lparr>volumeBestSim_dmp := best, volumeSecBestSim_dmp := secBest\<rparr>)"

definition computeSimilarityVolumes :: "device \<Rightarrow> Tile \<Rightarrow> SgmDepthList \<Rightarrow> Sgm \<Rightarrow> Sgm" where
  "computeSimilarityVolumes dev tile dl s =
    (let downscaledRoi =
           downscaleROI dev (roi tile) (scale (sgmParams s) * stepXY (sgmParams s));
         s1 = s\<lparr>volumeBestSim_dmp := cuda_volumeInitialize (volumeBestSim_dmp s) 255\<rparr>;
         s2 = s1\<lparr>volumeSecBestSim_dmp := cuda_volumeInitialize (volumeSecBestSim_dmp s1) 255\<rparr>;
         (rcDeviceCamera, s3) = requestCamera (rc tile) (scale (sgmParams s2)) s2
     in fold (computeSimilarityVolumes_tc dev tile dl downscaledRoi rcDeviceCamera)
          [0..<length (sgmTCams tile)] s3)"

definition optimizeSimilarityVolume :: "device \<Rightarrow> Tile \<Rightarrow> SgmDepthList \<Rightarrow> Sgm \<Rightarrow> Sgm" where
  "optimizeSimilarityVolume dev tile dl s =
    (let downscaledRoi =
           downscaleROI dev (roi tile) (scale (sgmParams s) * stepXY (sgmParams s));
         (rcDeviceCamera, s1) = requestCamera (rc tile) (scale (sgmParams s)) s;
         (out, sliceA, sliceB, axisAcc) =
           cuda_volumeOptimize dev (volumeBestSim_dmp s1) (volumeSliceAccA_dmp s1)
             (volumeSliceAccB_dmp s1) (volumeAxisAcc_dmp s1) (volumeSecBestSim_dmp s1)
             rcDeviceCamera (sgmParams s1) (length (getDepths dl)) downscaledRoi
     in s1\<lparr>volumeBestSim_dmp := out, volumeSliceAccA_dmp := sliceA,
           volumeSliceAccB_dmp := sliceB, volumeAxisAcc_dmp := axisAcc\<rparr>)"

definition retrieveBestDepth :: "device \<Rightarrow> Tile \<Rightarrow> SgmDepthList \<Rightarrow> Sgm \<Rightarrow> Sgm" where
  "retrieveBestDepth dev tile dl s =
    (let downscaledRoi =
           downscaleROI dev (roi tile) (scale (sgmParams s) * stepXY (sgmParams s));
         depthRange = \<lparr>range_begin = 0, range_end = length (getDepths dl)\<rparr>;
         (rcDeviceCamera, s1) = requestCamera (rc tile) 1 s
     in s1\<lparr>depthSimMap_dmp :=
             cuda_volumeRetrieveBestDepth dev (depthSimMap_dmp s1) (depths_dmp s1)
               (volumeBestSim_dmp s1) rcDeviceCamera (sgmParams s1) depthRange
               downscaledRoi\<rparr>)"

text \<open>
  The stages of \<^verbatim>\<open>sgmRc\<close> in source order. Upload: the loop that stores the depths
  in the page-locked host buffer, then the copy to the device.
\<close>

definition sgmRc_upload_depth :: "SgmDepthList \<Rightarrow> nat \<Rightarrow> Sgm \<Rightarrow> Sgm" where
  "sgmRc_upload_depth dl i s =
     s\<lparr>depths_hmh :=
         (depths_hmh s)\<lparr>content := (content (depths_hmh s))([i, 0] := getDepths dl ! i)\<rparr>\<rparr>"

definition sgmRc_upload :: "SgmDepthList \<Rightarrow> Sgm \<Rightarrow> Sgm" where
  "sgmRc_upload dl s =
    (let s1 = fold (sgmRc_upload_depth dl) [0..<length (getDepths dl)] s
     in s1\<lparr>depths_dmp := copyFrom (depths_dmp s1) (depths_hmh s1)\<rparr>)"

text \<open>Fusion: both volumes are computed; with fewer than two target cameras the best
  volume is copied into the second best one.\<close>

definition sgmRc_fusion :: "device \<Rightarrow> Tile \<Rightarrow> SgmDepthList \<Rightarrow> Sgm \<Rightarrow> Sgm" where
  "sgmRc_fusion dev tile dl s =
    (let s1 = computeSimilarityVolumes dev tile dl s
     in if length (sgmTCams tile) < 2
        then s1\<lparr>volumeSecBestSim_dmp := copyFrom (volumeSecBestSim_dmp s1) (volumeBestSim_dmp s1)\<rparr>
        else s1)"

text \<open>Filtering: the volume is optimized, or else the second best volume is copied into
  the best one.\<close>

definition sgmRc_filtering :: "device \<Rightarrow> Tile \<Rightarrow> SgmDepthList \<Rightarrow> Sgm \<Rightarrow> Sgm" where
  "sgmRc_filtering dev tile dl s =
    (if doSgmOptimizeVolume (sgmParams s)
     then optimizeSimilarityVolume dev tile dl s
     else s\<lparr>volumeBestSim_dmp := copyFrom (volumeBestSim_dmp s) (volumeSecBestSim_dmp s)\<rparr>)"

text \<open>
  The diagnostic exports. \<^verbatim>\<open>exportVolumeInformation\<close> is a const member: it
  allocates the host buffer \<^verbatim>\<open>volumeSim_hmh\<close> with the extent of the volume it is
  given, copies the volume into it and writes files from that copy; the buffer lives
  until the function returns. \<^verbatim>\<open>writeDepthSimMap\<close> writes the output map to a file.
  Files are not part of the engine, and no member changes; the allocation is logged.
\<close>

definition exportVolumeInformation ::
  "Tile \<Rightarrow> SgmDepthList \<Rightarrow> TSim CudaMemory \<Rightarrow> string \<Rightarrow> Sgm \<Rightarrow> Sgm" where
  "exportVolumeInformation tile dl in_volume_dmp name s =
     s\<lparr>allocationLog := allocationLog s @ [(''volumeSim_hmh'', getSize in_volume_dmp)]\<rparr>"

definition writeDepthSimMap :: "Tile \<Rightarrow> (real \<times> real) CudaMemory \<Rightarrow> string \<Rightarrow> Sgm \<Rightarrow> Sgm" where
  "writeDepthSimMap tile depthSimMap name s = s"

text \<open>
  \<^verbatim>\<open>sgmRc\<close>. A throw carries the view id and the engine as it is at that moment.
\<close>

definition sgmRc :: "device \<Rightarrow> Tile \<Rightarrow> SgmDepthList \<Rightarrow> Sgm \<Rightarrow> error \<times> Sgm + Sgm" where
  "sgmRc dev tile dl s =
    (let viewId = getViewId (mp s) (rc tile)
     in if sgmTCams tile = [] \<or> getDepths dl = []
        then Inl (NoDepthsOrNoTCams viewId, s)
        else
          (let s1 = sgmRc_upload dl s;
               s2 = sgmRc_fusion dev tile dl s1;
               s3 = (if exportIntermediateResults (sgmParams s2)
                     then exportVolumeInformation tile dl (volumeSecBestSim_dmp s2)
                            ''beforeFiltering'' s2
                     else s2);
               s4 = sgmRc_filtering dev tile dl s3;
               s5 = (if exportIntermediateResults (sgmParams s4)
                     then exportVolumeInformation tile dl (volumeBestSim_dmp s4)
                            ''afterFiltering'' s4
                     else s4);
               s6 = retrieveBestDepth dev tile dl s5;
               s7 = (if exportIntermediateResults (sgmParams s6)
                     then writeDepthSimMap tile (depthSimMap_dmp s6) ''_sgm'' s6
                     else s6)
           in Inr s7))"

subsection \<open>Notions used to state the properties\<close>

text \<open>The allocation of a buffer: its extent, row pitch and element size.\<close>

definition allocation :: "'a CudaMemory \<Rightarrow> nat list \<times> nat \<times> nat" where
  "allocation b = (getSize b, getPitch b, sizeofT b)"

definition allocations :: "Sgm \<Rightarrow> (nat list \<times> nat \<times> nat) list" where
  "allocations s =
     [allocation (depths_hmh s), allocation (depths_dmp s), allocation (depthSimMap_dmp s),
      allocation (volumeBestSim_dmp s), allocation (volumeSecBestSim_dmp s),
      allocation (volumeSliceAccA_dmp s), allocation (volumeSliceAccB_dmp s),
      allocation (volumeAxisAcc_dmp s)]"

text \<open>
  The two host buffers that the exports of one \<^verbatim>\<open>sgmRc\<close> call allocate when
  \<^verbatim>\<open>exportIntermediateResults\<close> is set: one for the second best volume before
  filtering, one for the best volume after it.
\<close>

definition exportAllocations :: "Sgm \<Rightarrow> (string \<times> nat list) list" where
  "exportAllocations s =
     (if exportIntermediateResults (sgmParams s)
      then [(''volumeSim_hmh'', getSize (volumeSecBestSim_dmp s)),
            (''volumeSim_hmh'', getSize (volumeBestSim_dmp s))]
      else [])"

text \<open>What the upload stage leaves alone, from the state \<open>s\<close> before to \<open>t\<close> after.\<close>

definition uploadFrame :: "Sgm \<Rightarrow> Sgm \<Rightarrow> bool" where
  "uploadFrame s t \<longleftrightarrow>
     mp t = mp s \<and> tileParams t = tileParams s \<and> sgmParams t = sgmParams s
     \<and> depthSimMap_dmp t = depthSimMap_dmp s
     \<and> volumeBestSim_dmp t = volumeBestSim_dmp s
     \<and> volumeSecBestSim_dmp t = volumeSecBestSim_dmp s
     \<and> volumeSliceAccA_dmp t = volumeSliceAccA_dmp s
     \<and> volumeSliceAccB_dmp t = volumeSliceAccB_dmp s
     \<and> volumeAxisAcc_dmp t = volumeAxisAcc_dmp s
     \<and> cacheRequests t = cacheRequests s
     \<and> allocationLog t = allocationLog s
     \<and> allocation (depths_hmh t) = allocation (depths_hmh s)
     \<and> allocation (depths_dmp t) = allocation (depths_dmp s)"

text \<open>What the fusion stage leaves alone.\<close>

definition fusionFrame :: "Sgm \<Rightarrow> Sgm \<Rightarrow> bool" where
  "fusionFrame s t \<longleftrightarrow>
     mp t = mp s \<and> tileParams t = tileParams s \<and> sgmParams t = sgmParams s
     \<and> depths_hmh t = depths_hmh s \<and> depths_dmp t = depths_dmp s
     \<and> depthSimMap_dmp t = depthSimMap_dmp s
     \<and> volumeSliceAccA_dmp t = volumeSliceAccA_dmp s
     \<and> volumeSliceAccB_dmp t = volumeSliceAccB_dmp s
     \<and> volumeAxisAcc_dmp t = volumeAxisAcc_dmp s
     \<and> allocationLog t = allocationLog s
     \<and> allocation (volumeBestSim_dmp t) = allocation (volumeBestSim_dmp s)
     \<and> allocation (volumeSecBestSim_dmp t) = allocation (volumeSecBestSim_dmp s)"

text \<open>
  The state of \<^verbatim>\<open>computeSimilarityVolumes\<close> when its loop over the target cameras
  starts: both volumes initialized, the reference camera requested.
\<close>

definition volumesInitialized :: "Tile \<Rightarrow> Sgm \<Rightarrow> Sgm" where
  "volumesInitialized tile s =
     s\<lparr>volumeBestSim_dmp := cuda_volumeInitialize (volumeBestSim_dmp s) 255,
       volumeSecBestSim_dmp := cuda_volumeInitialize (volumeSecBestSim_dmp s) 255,
       cacheRequests := cacheRequests s @ [(rc tile, scale (sgmParams s))]\<rparr>"

text \<open>
  The specification's account of fusion: per cell, the best volume holds the lowest and
  the second best volume the second lowest of the costs of the target cameras whose
  range covers the cell. \<open>tcCost\<close> is the cost that target camera number \<open>tci\<close>
  yields for a cell, \<open>contributing\<close> says that its round covers the cell, and
  \<open>contributions\<close> collects the costs of the covering cameras among \<open>xs\<close>.
\<close>

definition tcCost :: "device \<Rightarrow> Tile \<Rightarrow> SgmDepthList \<Rightarrow> Sgm \<Rightarrow> nat \<Rightarrow> nat list \<Rightarrow> TSim" where
  "tcCost dev tile dl s tci idx =
     similarity dev (content (depths_dmp s)) (rc tile, scale (sgmParams s))
       (sgmTCams tile ! tci, scale (sgmParams s)) (sgmParams s) (tcDepthRange dl tci)
       (downscaleROI dev (roi tile) (scale (sgmParams s) * stepXY (sgmParams s))) idx"

definition contributing :: "device \<Rightarrow> Tile \<Rightarrow> SgmDepthList \<Rightarrow> Sgm \<Rightarrow> nat list \<Rightarrow> nat \<Rightarrow> bool" where
  "contributing dev tile dl s idx tci \<longleftrightarrow>
     inTile (downscaleROI dev (roi tile) (scale (sgmParams s) * stepXY (sgmParams s)))
       (tcDepthRange dl tci) idx"

definition contributions ::
  "device \<Rightarrow> Tile \<Rightarrow> SgmDepthList \<Rightarrow> Sgm \<Rightarrow> nat list \<Rightarrow> nat list \<Rightarrow> TSim multiset" where
  "contributions dev tile dl s idx xs =
     image_mset (\<lambda>tci. tcCost dev tile dl s tci idx)
       (mset (filter (contributing dev tile dl s idx) xs))"

definition lowest :: "TSim multiset \<Rightarrow> TSim" where
  "lowest M = Min (set_mset M)"

definition secondLowest :: "TSim multiset \<Rightarrow> TSim" where
  "secondLowest M = Min (set_mset (M - {#lowest M#}))"

text \<open>
  The specification's account of the memory queries, "byte totals across all owned
  buffers": every buffer member of the engine counts, the host staging buffer included.
\<close>

definition ownedBytesPadded :: "Sgm \<Rightarrow> nat" where
  "ownedBytesPadded s =
     getBytesPadded (depths_hmh s) + getBytesPadded (depths_dmp s)
     + getBytesPadded (depthSimMap_dmp s)
     + getBytesPadded (volumeBestSim_dmp s) + getBytesPadded (volumeSecBestSim_dmp s)
     + getBytesPadded (volumeSliceAccA_dmp s) + getBytesPadded (volumeSliceAccB_dmp s)
     + getBytesPadded (volumeAxisAcc_dmp s)"

definition ownedBytesUnpadded :: "Sgm \<Rightarrow> nat" where
  "ownedBytesUnpadded s =
     getBytesUnpadded (depths_hmh s) + getBytesUnpadded (depths_dmp s)
     + getBytesUnpadded (depthSimMap_dmp s)
     + getBytesUnpadded (volumeBestSim_dmp s) + getBytesUnpadded (volumeSecBestSim_dmp s)
     + getBytesUnpadded (volumeSliceAccA_dmp s) + getBytesUnpadded (volumeSliceAccB_dmp s)
     + getBytesUnpadded (volumeAxisAcc_dmp s)"

text \<open>The same totals over the seven buffers in device memory.\<close>

definition deviceOwnedBytesPadded :: "Sgm \<Rightarrow> nat" where
  "deviceOwnedBytesPadded s =
     getBytesPadded (depths_dmp s) + getBytesPadded (depthSimMap_dmp s)
     + getBytesPadded (volumeBestSim_dmp s) + getBytesPadded (volumeSecBestSim_dmp s)
     + getBytesPadded (volumeSliceAccA_dmp s) + getBytesPadded (volumeSliceAccB_dmp s)
     + getBytesPadded (volumeAxisAcc_dmp s)"

definition deviceOwnedBytesUnpadded :: "Sgm \<Rightarrow> nat" where
  "deviceOwnedBytesUnpadded s =
     getBytesUnpadded (depths_dmp s) + getBytesUnpadded (depthSimMap_dmp s)
     + getBytesUnpadded (volumeBestSim_dmp s) + getBytesUnpadded (volumeSecBestSim_dmp s)
     + getBytesUnpadded (volumeSliceAccA_dmp s) + getBytesUnpadded (volumeSliceAccB_dmp s)
     + getBytesUnpadded (volumeAxisAcc_dmp s)"

text \<open>The four stages of \<^verbatim>\<open>sgmRc\<close> one after the other, the exports left out.\<close>

definition sgmRc_stages :: "device \<Rightarrow> Tile \<Rightarrow> SgmDepthList \<Rightarrow> Sgm \<Rightarrow> Sgm" where
  "sgmRc_stages dev tile dl s =
     retrieveBestDepth dev tile dl
       (sgmRc_filtering dev tile dl (sgmRc_fusion dev tile dl (sgmRc_upload dl s)))"

subsection \<open>A concrete device, engine and tiles\<close>

text \<open>
  An allocator that pads rows to 512 bytes, zero-filled fresh memory, a region scaled by
  integer division, and simple per-cell formulas: the cost of a cell is ten times the
  target camera's id plus the cell's depth index.
\<close>

definition dev0 :: device where
  "dev0 =
    \<lparr>pitchOf = (\<lambda>b. ((b + 511) div 512) * 512),
     freshFloat = (\<lambda>idx. 0),
     freshFloat2 = (\<lambda>idx. (0, 0)),
     freshTSim = (\<lambda>idx. 0),
     freshTSimAcc = (\<lambda>idx. 0),
     downscaleROI = (\<lambda>r d.
        \<lparr>roi_x = \<lparr>range_begin = range_begin (roi_x r) div d, range_end = range_end (roi_x r) div d\<rparr>,
         roi_y = \<lparr>range_begin = range_begin (roi_y r) div d, range_end = range_end (roi_y r) div d\<rparr>\<rparr>),
     similarity = (\<lambda>depths rcCam tcCam sp dr r idx. word_of_nat (10 * fst tcCam + last idx)),
     aggregate = (\<lambda>vol rcCam sp n r idx. vol idx),
     aggregateScratch = (\<lambda>k old vol rcCam sp n r idx. 0),
     bestDepth = (\<lambda>depths vol rcCam sp dr r idx. (depths [0, 0], 0))\<rparr>"

definition mvp0 :: MultiViewParams where
  "mvp0 = \<lparr>getViewId = (\<lambda>cam. 100 + cam), ncams = 4\<rparr>"

definition tp0 :: TileParams where
  "tp0 = \<lparr>tp_width = 65, tp_height = 48\<rparr>"

definition sp0 :: SgmParams where
  "sp0 = \<lparr>scale = 2, stepXY = 2, maxDepths = 32, doSgmOptimizeVolume = True,
          exportIntermediateResults = False, filteringAxes = ''YX''\<rparr>"

definition roi0 :: ROI where
  "roi0 = \<lparr>roi_x = \<lparr>range_begin = 0, range_end = 64\<rparr>,
           roi_y = \<lparr>range_begin = 0, range_end = 48\<rparr>\<rparr>"

definition tile0 :: Tile where
  "tile0 = \<lparr>rc = 0, sgmTCams = [], roi = roi0, nbTiles = 1\<rparr>"

definition tile1 :: Tile where
  "tile1 = \<lparr>rc = 0, sgmTCams = [1], roi = roi0, nbTiles = 1\<rparr>"

definition tile2 :: Tile where
  "tile2 = \<lparr>rc = 0, sgmTCams = [1, 2], roi = roi0, nbTiles = 1\<rparr>"

definition dl0 :: SgmDepthList where
  "dl0 = \<lparr>getDepths = [1, 2, 3], getDepthsTcLimits = [(0, 2), (1, 2)]\<rparr>"

definition engine0 :: Sgm where
  "engine0 = Sgm dev0 mvp0 tp0 sp0"

text \<open>The same engine with aggregation switched off.\<close>

definition engine1 :: Sgm where
  "engine1 = Sgm dev0 mvp0 tp0 (sp0\<lparr>doSgmOptimizeVolume := False\<rparr>)"

text \<open>The same engine with the diagnostic exports switched on.\<close>

definition engine2 :: Sgm where
  "engine2 = Sgm dev0 mvp0 tp0 (sp0\<lparr>exportIntermediateResults := True\<rparr>)"

text \<open>A tile geometry one pixel wider than \<open>2 ^ 24\<close>, matched at full resolution.\<close>

definition tp1 :: TileParams where
  "tp1 = \<lparr>tp_width = 16777217, tp_height = 48\<rparr>"

definition sp1 :: SgmParams where
  "sp1 = \<lparr>scale = 1, stepXY = 1, maxDepths = 32, doSgmOptimizeVolume = True,
          exportIntermediateResults = False, filteringAxes = ''YX''\<rparr>"

section \<open>Properties of the stages\<close>

subsection \<open>Loops\<close>

text \<open>A property that every round of a loop keeps holds when the loop ends.\<close>

lemma fold_invariant:
  "P s \<Longrightarrow> (\<And>x t. x \<in> set xs \<Longrightarrow> P t \<Longrightarrow> P (f x t)) \<Longrightarrow> P (fold f xs s)"
  by (induction xs arbitrary: s) simp_all

lemma map_nth_pair: "map (\<lambda>i. (xs ! i, k)) [0..<length xs] = map (\<lambda>x. (x, k)) xs"
proof -
  have "map (\<lambda>i. (xs ! i, k)) [0..<length xs] = map (\<lambda>x. (x, k)) (map ((!) xs) [0..<length xs])"
    by (simp add: comp_def)
  then show ?thesis by (simp only: map_nth)
qed

subsection \<open>Upload\<close>

lemma upload_depth_frame:
  "mp (sgmRc_upload_depth dl i s) = mp s"
  "tileParams (sgmRc_upload_depth dl i s) = tileParams s"
  "sgmParams (sgmRc_upload_depth dl i s) = sgmParams s"
  "depths_dmp (sgmRc_upload_depth dl i s) = depths_dmp s"
  "depthSimMap_dmp (sgmRc_upload_depth dl i s) = depthSimMap_dmp s"
  "volumeBestSim_dmp (sgmRc_upload_depth dl i s) = volumeBestSim_dmp s"
  "volumeSecBestSim_dmp (sgmRc_upload_depth dl i s) = volumeSecBestSim_dmp s"
  "volumeSliceAccA_dmp (sgmRc_upload_depth dl i s) = volumeSliceAccA_dmp s"
  "volumeSliceAccB_dmp (sgmRc_upload_depth dl i s) = volumeSliceAccB_dmp s"
  "volumeAxisAcc_dmp (sgmRc_upload_depth dl i s) = volumeAxisAcc_dmp s"
  "cacheRequests (sgmRc_upload_depth dl i s) = cacheRequests s"
  "allocationLog (sgmRc_upload_depth dl i s) = allocationLog s"
  "allocation (depths_hmh (sgmRc_upload_depth dl i s)) = allocation (depths_hmh s)"
  by (simp_all add: sgmRc_upload_depth_def allocation_def)

lemma upload_loop_frame:
  "uploadFrame s (fold (sgmRc_upload_depth dl) xs s)"
proof (rule fold_invariant [where P = "uploadFrame s"])
  show "uploadFrame s s" by (simp add: uploadFrame_def)
next
  fix x t assume "uploadFrame s t"
  then show "uploadFrame s (sgmRc_upload_depth dl x t)"
    by (simp add: uploadFrame_def upload_depth_frame)
qed

lemma sgmRc_upload_frame: "uploadFrame s (sgmRc_upload dl s)"
  using upload_loop_frame [of s dl "[0..<length (getDepths dl)]"]
  by (simp add: sgmRc_upload_def Let_def uploadFrame_def copyFrom_def allocation_def)

lemma sgmRc_upload_allocations: "allocations (sgmRc_upload dl s) = allocations s"
  using sgmRc_upload_frame [of s dl] by (simp add: uploadFrame_def allocations_def)

lemma sgmRc_upload_sgmParams: "sgmParams (sgmRc_upload dl s) = sgmParams s"
  using sgmRc_upload_frame [of s dl] by (simp add: uploadFrame_def)

lemma sgmRc_upload_requests: "cacheRequests (sgmRc_upload dl s) = cacheRequests s"
  using sgmRc_upload_frame [of s dl] by (simp add: uploadFrame_def)

subsection \<open>One target camera\<close>

lemma tc_frame:
  "mp (computeSimilarityVolumes_tc dev tile dl r c tci s) = mp s"
  "tileParams (computeSimilarityVolumes_tc dev tile dl r c tci s) = tileParams s"
  "sgmParams (computeSimilarityVolumes_tc dev tile dl r c tci s) = sgmParams s"
  "depths_hmh (computeSimilarityVolumes_tc dev tile dl r c tci s) = depths_hmh s"
  "depths_dmp (computeSimilarityVolumes_tc dev tile dl r c tci s) = depths_dmp s"
  "depthSimMap_dmp (computeSimilarityVolumes_tc dev tile dl r c tci s) = depthSimMap_dmp s"
  "volumeSliceAccA_dmp (computeSimilarityVolumes_tc dev tile dl r c tci s) = volumeSliceAccA_dmp s"
  "volumeSliceAccB_dmp (computeSimilarityVolumes_tc dev tile dl r c tci s) = volumeSliceAccB_dmp s"
  "volumeAxisAcc_dmp (computeSimilarityVolumes_tc dev tile dl r c tci s) = volumeAxisAcc_dmp s"
  "allocationLog (computeSimilarityVolumes_tc dev tile dl r c tci s) = allocationLog s"
  "allocation (volumeBestSim_dmp (computeSimilarityVolumes_tc dev tile dl r c tci s))
     = allocation (volumeBestSim_dmp s)"
  "allocation (volumeSecBestSim_dmp (computeSimilarityVolumes_tc dev tile dl r c tci s))
     = allocation (volumeSecBestSim_dmp s)"
  "cacheRequests (computeSimilarityVolumes_tc dev tile dl r c tci s)
     = cacheRequests s @ [(sgmTCams tile ! tci, scale (sgmParams s))]"
  by (simp_all add: computeSimilarityVolumes_tc_def requestCamera_def
        cuda_volumeComputeSimilarity_def Let_def allocation_def)

lemma tc_best:
  "content (volumeBestSim_dmp (computeSimilarityVolumes_tc dev tile dl r c tci s)) idx =
     (if inTile r (tcDepthRange dl tci) idx
      then fuseBest (similarity dev (content (depths_dmp s)) c
                      (sgmTCams tile ! tci, scale (sgmParams s)) (sgmParams s)
                      (tcDepthRange dl tci) r idx)
             (content (volumeBestSim_dmp s) idx)
      else content (volumeBestSim_dmp s) idx)"
  by (simp add: computeSimilarityVolumes_tc_def requestCamera_def
        cuda_volumeComputeSimilarity_def Let_def)

lemma tc_secBest:
  "content (volumeSecBestSim_dmp (computeSimilarityVolumes_tc dev tile dl r c tci s)) idx =
     (if inTile r (tcDepthRange dl tci) idx
      then fuseSecBest (similarity dev (content (depths_dmp s)) c
                      (sgmTCams tile ! tci, scale (sgmParams s)) (sgmParams s)
                      (tcDepthRange dl tci) r idx)
             (content (volumeBestSim_dmp s) idx) (content (volumeSecBestSim_dmp s) idx)
      else content (volumeSecBestSim_dmp s) idx)"
  by (simp add: computeSimilarityVolumes_tc_def requestCamera_def
        cuda_volumeComputeSimilarity_def Let_def)

lemma fuse_ordered: "b \<le> sb \<Longrightarrow> fuseBest c b \<le> fuseSecBest c b sb"
  by (auto simp: fuseBest_def fuseSecBest_def)

lemma fuse_two_lowest:
  assumes "b = lowest M" "sb = secondLowest M" "2 \<le> size M"
  shows "fuseBest c b = lowest (add_mset c M) \<and> fuseSecBest c b sb = secondLowest (add_mset c M)"
proof -
  have ne: "M \<noteq> {#}" using assms(3) by auto
  have bin: "b \<in># M" using assms(1) ne by (simp add: lowest_def)
  have "size (M - {#b#}) = size M - 1" using bin by (simp add: size_Diff_singleton)
  then have ne2: "M - {#b#} \<noteq> {#}" using assms(3) by auto
  have l: "lowest (add_mset c M) = min c b"
    using ne assms(1) by (simp add: lowest_def)
  show ?thesis
  proof (cases "c < b")
    case True
    then have "lowest (add_mset c M) = c" using l by simp
    then have "secondLowest (add_mset c M) = b"
      using assms(1) by (simp add: secondLowest_def lowest_def)
    then show ?thesis using True l by (simp add: fuseBest_def fuseSecBest_def)
  next
    case False
    then have lb: "lowest (add_mset c M) = b" using l by (simp add: min_def)
    have "add_mset c M - {#b#} = add_mset c (M - {#b#})"
      using bin by simp
    then have "secondLowest (add_mset c M) = min c sb"
      using ne2 assms(1,2) lb by (simp add: secondLowest_def)
    then show ?thesis using False lb by (auto simp: fuseBest_def fuseSecBest_def min_def)
  qed
qed

lemma fusionFrame_refl: "fusionFrame s s"
  by (simp add: fusionFrame_def)

lemma fusionFrame_trans: "fusionFrame s t \<Longrightarrow> fusionFrame t u \<Longrightarrow> fusionFrame s u"
  by (simp add: fusionFrame_def)

lemma tc_fusionFrame: "fusionFrame s (computeSimilarityVolumes_tc dev tile dl r c tci s)"
  by (simp add: fusionFrame_def tc_frame)

subsection \<open>The loop over the target cameras\<close>

lemma tc_loop_frame:
  "fusionFrame s (fold (computeSimilarityVolumes_tc dev tile dl r c) xs s)"
proof (rule fold_invariant [where P = "fusionFrame s"])
  show "fusionFrame s s" by (rule fusionFrame_refl)
next
  fix x t assume "fusionFrame s t"
  then show "fusionFrame s (computeSimilarityVolumes_tc dev tile dl r c x t)"
    using tc_fusionFrame fusionFrame_trans by blast
qed

lemma tc_loop_ordered:
  assumes "\<forall>idx. content (volumeBestSim_dmp s) idx \<le> content (volumeSecBestSim_dmp s) idx"
  shows "\<forall>idx. content (volumeBestSim_dmp (fold (computeSimilarityVolumes_tc dev tile dl r c) xs s)) idx
               \<le> content (volumeSecBestSim_dmp (fold (computeSimilarityVolumes_tc dev tile dl r c) xs s)) idx"
proof (rule fold_invariant
    [where P = "\<lambda>t. \<forall>idx. content (volumeBestSim_dmp t) idx \<le> content (volumeSecBestSim_dmp t) idx"])
  show "\<forall>idx. content (volumeBestSim_dmp s) idx \<le> content (volumeSecBestSim_dmp s) idx"
    by (rule assms)
next
  fix x and t :: Sgm
  assume "\<forall>idx. content (volumeBestSim_dmp t) idx \<le> content (volumeSecBestSim_dmp t) idx"
  then show "\<forall>idx. content (volumeBestSim_dmp (computeSimilarityVolumes_tc dev tile dl r c x t)) idx
      \<le> content (volumeSecBestSim_dmp (computeSimilarityVolumes_tc dev tile dl r c x t)) idx"
    by (simp add: tc_best tc_secBest fuse_ordered)
qed

lemma tc_loop_untouched:
  assumes "\<forall>tci \<in> set xs. \<not> inTile r (tcDepthRange dl tci) idx"
  shows "content (volumeBestSim_dmp (fold (computeSimilarityVolumes_tc dev tile dl r c) xs s)) idx
           = content (volumeBestSim_dmp s) idx
       \<and> content (volumeSecBestSim_dmp (fold (computeSimilarityVolumes_tc dev tile dl r c) xs s)) idx
           = content (volumeSecBestSim_dmp s) idx"
  using assms
proof (induction xs arbitrary: s)
  case Nil
  then show ?case by simp
next
  case (Cons a xs)
  then show ?case by (simp add: tc_best tc_secBest)
qed

lemma tc_loop_requests:
  "cacheRequests (fold (computeSimilarityVolumes_tc dev tile dl r c) xs s)
     = cacheRequests s @ map (\<lambda>tci. (sgmTCams tile ! tci, scale (sgmParams s))) xs"
proof (induction xs arbitrary: s)
  case Nil
  then show ?case by simp
next
  case (Cons a xs)
  then show ?case by (simp add: tc_frame)
qed

lemma tc_loop_two_lowest:
  assumes "sgmParams s = sgmParams s0" "depths_dmp s = depths_dmp s0"
    and "content (volumeBestSim_dmp s) idx = lowest M"
    and "content (volumeSecBestSim_dmp s) idx = secondLowest M"
    and "2 \<le> size M"
  shows "content (volumeBestSim_dmp
           (fold (computeSimilarityVolumes_tc dev tile dl
                   (downscaleROI dev (roi tile) (scale (sgmParams s0) * stepXY (sgmParams s0)))
                   (rc tile, scale (sgmParams s0))) xs s)) idx
           = lowest (M + contributions dev tile dl s0 idx xs)
       \<and> content (volumeSecBestSim_dmp
           (fold (computeSimilarityVolumes_tc dev tile dl
                   (downscaleROI dev (roi tile) (scale (sgmParams s0) * stepXY (sgmParams s0)))
                   (rc tile, scale (sgmParams s0))) xs s)) idx
           = secondLowest (M + contributions dev tile dl s0 idx xs)"
  using assms
proof (induction xs arbitrary: s M)
  case Nil
  then show ?case by (simp add: contributions_def)
next
  case (Cons a xs)
  let ?r = "downscaleROI dev (roi tile) (scale (sgmParams s0) * stepXY (sgmParams s0))"
  let ?c = "(rc tile, scale (sgmParams s0))"
  let ?t = "computeSimilarityVolumes_tc dev tile dl ?r ?c a s"
  have t: "sgmParams ?t = sgmParams s0" "depths_dmp ?t = depths_dmp s0"
    using Cons.prems(1,2) by (simp_all add: tc_frame)
  show ?case
  proof (cases "contributing dev tile dl s0 idx a")
    case True
    let ?M = "add_mset (tcCost dev tile dl s0 a idx) M"
    have b: "content (volumeBestSim_dmp ?t) idx
          = fuseBest (tcCost dev tile dl s0 a idx) (content (volumeBestSim_dmp s) idx)"
      and sb: "content (volumeSecBestSim_dmp ?t) idx
          = fuseSecBest (tcCost dev tile dl s0 a idx) (content (volumeBestSim_dmp s) idx)
              (content (volumeSecBestSim_dmp s) idx)"
      using True Cons.prems(1,2) by (simp_all add: tc_best tc_secBest contributing_def tcCost_def)
    have two: "content (volumeBestSim_dmp ?t) idx = lowest ?M"
      "content (volumeSecBestSim_dmp ?t) idx = secondLowest ?M"
      using fuse_two_lowest [OF Cons.prems(3,4,5), of "tcCost dev tile dl s0 a idx"] b sb
      by simp_all
    have sz: "2 \<le> size ?M" using Cons.prems(5) by simp
    have m: "M + contributions dev tile dl s0 idx (a # xs)
        = ?M + contributions dev tile dl s0 idx xs"
      using True by (simp add: contributions_def)
    show ?thesis
      using Cons.IH [OF t two sz] by (simp only: fold_simps comp_apply m)
  next
    case False
    have two: "content (volumeBestSim_dmp ?t) idx = lowest M"
      "content (volumeSecBestSim_dmp ?t) idx = secondLowest M"
      using False Cons.prems(3,4) by (simp_all add: tc_best tc_secBest contributing_def)
    have m: "contributions dev tile dl s0 idx (a # xs) = contributions dev tile dl s0 idx xs"
      using False by (simp add: contributions_def)
    show ?thesis
      using Cons.IH [OF t two Cons.prems(5)] by (simp only: fold_simps comp_apply m)
  qed
qed

subsection \<open>Fusion\<close>

lemma computeSimilarityVolumes_loop:
  "computeSimilarityVolumes dev tile dl s =
     fold (computeSimilarityVolumes_tc dev tile dl
             (downscaleROI dev (roi tile) (scale (sgmParams s) * stepXY (sgmParams s)))
             (rc tile, scale (sgmParams s)))
       [0..<length (sgmTCams tile)] (volumesInitialized tile s)"
  by (simp add: computeSimilarityVolumes_def volumesInitialized_def requestCamera_def Let_def)

lemma volumesInitialized_frame: "fusionFrame s (volumesInitialized tile s)"
  by (simp add: fusionFrame_def volumesInitialized_def cuda_volumeInitialize_def allocation_def)

lemma volumesInitialized_content:
  "content (volumeBestSim_dmp (volumesInitialized tile s)) idx = 255"
  "content (volumeSecBestSim_dmp (volumesInitialized tile s)) idx = 255"
  by (simp_all add: volumesInitialized_def cuda_volumeInitialize_def)

lemma computeSimilarityVolumes_frame: "fusionFrame s (computeSimilarityVolumes dev tile dl s)"
  unfolding computeSimilarityVolumes_loop
  using volumesInitialized_frame tc_loop_frame fusionFrame_trans by blast

lemma computeSimilarityVolumes_requests:
  "cacheRequests (computeSimilarityVolumes dev tile dl s)
     = cacheRequests s @ (rc tile, scale (sgmParams s))
         # map (\<lambda>tc. (tc, scale (sgmParams s))) (sgmTCams tile)"
proof -
  have "sgmParams (volumesInitialized tile s) = sgmParams s"
    by (simp add: volumesInitialized_def)
  moreover have "cacheRequests (volumesInitialized tile s)
      = cacheRequests s @ [(rc tile, scale (sgmParams s))]"
    by (simp add: volumesInitialized_def)
  ultimately show ?thesis
    by (simp add: computeSimilarityVolumes_loop tc_loop_requests map_nth_pair)
qed

lemma computeSimilarityVolumes_ordered:
  "content (volumeBestSim_dmp (computeSimilarityVolumes dev tile dl s)) idx
     \<le> content (volumeSecBestSim_dmp (computeSimilarityVolumes dev tile dl s)) idx"
proof -
  have "\<forall>idx. content (volumeBestSim_dmp (volumesInitialized tile s)) idx
      \<le> content (volumeSecBestSim_dmp (volumesInitialized tile s)) idx"
    by (simp add: volumesInitialized_content)
  then show ?thesis
    unfolding computeSimilarityVolumes_loop using tc_loop_ordered by blast
qed

lemma computeSimilarityVolumes_untouched:
  assumes "\<forall>tci < length (sgmTCams tile).
             \<not> inTile (downscaleROI dev (roi tile) (scale (sgmParams s) * stepXY (sgmParams s)))
                 (tcDepthRange dl tci) idx"
  shows "content (volumeBestSim_dmp (computeSimilarityVolumes dev tile dl s)) idx = 255
       \<and> content (volumeSecBestSim_dmp (computeSimilarityVolumes dev tile dl s)) idx = 255"
proof -
  have "\<forall>tci \<in> set [0..<length (sgmTCams tile)].
          \<not> inTile (downscaleROI dev (roi tile) (scale (sgmParams s) * stepXY (sgmParams s)))
              (tcDepthRange dl tci) idx"
    using assms by simp
  then show ?thesis
    unfolding computeSimilarityVolumes_loop
    by (simp only: tc_loop_untouched volumesInitialized_content)
qed

lemma computeSimilarityVolumes_two_lowest:
  "content (volumeBestSim_dmp (computeSimilarityVolumes dev tile dl s)) idx
     = lowest ({#255, 255#} + contributions dev tile dl s idx [0..<length (sgmTCams tile)])
   \<and> content (volumeSecBestSim_dmp (computeSimilarityVolumes dev tile dl s)) idx
     = secondLowest ({#255, 255#} + contributions dev tile dl s idx [0..<length (sgmTCams tile)])"
proof -
  have a: "sgmParams (volumesInitialized tile s) = sgmParams s"
    "depths_dmp (volumesInitialized tile s) = depths_dmp s"
    by (simp_all add: volumesInitialized_def)
  have l: "lowest {#255, 255#} = 255" "secondLowest {#255, 255#} = 255"
    by (simp_all add: lowest_def secondLowest_def)
  have b: "content (volumeBestSim_dmp (volumesInitialized tile s)) idx = lowest {#255, 255#}"
    "content (volumeSecBestSim_dmp (volumesInitialized tile s)) idx = secondLowest {#255, 255#}"
    by (simp_all only: l volumesInitialized_content)
  have sz: "2 \<le> size ({#255, 255#} :: TSim multiset)" by simp
  show ?thesis
    unfolding computeSimilarityVolumes_loop
    using tc_loop_two_lowest [OF a b sz] .
qed

text \<open>
  Fusion on the concrete tile with two target cameras, at pixel (0, 0): camera 1 covers
  the depth indices 0 and 1 with costs 10 and 11, camera 2 the indices 1 and 2 with
  costs 21 and 22, and index 3 is covered by neither.
\<close>

lemma fusion_example:
  "map (\<lambda>z. content (volumeBestSim_dmp (sgmRc_fusion dev0 tile2 dl0 engine0)) [0, 0, z])
       [0, 1, 2, 3]
     = [10, 11, 22, 255]
   \<and> map (\<lambda>z. content (volumeSecBestSim_dmp (sgmRc_fusion dev0 tile2 dl0 engine0)) [0, 0, z])
       [0, 1, 2, 3]
     = [255, 21, 255, 255]"
proof -
  have "[0..<2] = [0, Suc 0]"
    by (simp add: upt_rec)
  then show ?thesis
    by (simp add: sgmRc_fusion_def computeSimilarityVolumes_def computeSimilarityVolumes_tc_def
          cuda_volumeComputeSimilarity_def cuda_volumeInitialize_def requestCamera_def Let_def
          tile2_def dl0_def dev0_def roi0_def engine0_def Sgm_def sp0_def tcDepthRange_def
          inTile_def range_size_def fuseBest_def fuseSecBest_def)
qed

lemma sgmRc_fusion_frame: "fusionFrame s (sgmRc_fusion dev tile dl s)"
  using computeSimilarityVolumes_frame [of s dev tile dl]
  by (simp add: sgmRc_fusion_def Let_def fusionFrame_def copyFrom_def allocation_def)

lemma sgmRc_fusion_allocations: "allocations (sgmRc_fusion dev tile dl s) = allocations s"
  using sgmRc_fusion_frame [of s dev tile dl] by (simp add: fusionFrame_def allocations_def)

lemma sgmRc_fusion_sgmParams: "sgmParams (sgmRc_fusion dev tile dl s) = sgmParams s"
  using sgmRc_fusion_frame [of s dev tile dl] by (simp add: fusionFrame_def)

lemma sgmRc_fusion_requests:
  "cacheRequests (sgmRc_fusion dev tile dl s)
     = cacheRequests s @ (rc tile, scale (sgmParams s))
         # map (\<lambda>tc. (tc, scale (sgmParams s))) (sgmTCams tile)"
  by (simp add: sgmRc_fusion_def Let_def computeSimilarityVolumes_requests)

lemma sgmRc_fusion_ordered:
  "content (volumeBestSim_dmp (sgmRc_fusion dev tile dl s)) idx
     \<le> content (volumeSecBestSim_dmp (sgmRc_fusion dev tile dl s)) idx"
  by (simp add: sgmRc_fusion_def Let_def copyFrom_def computeSimilarityVolumes_ordered)

subsection \<open>Filtering\<close>

lemma optimizeSimilarityVolume_frame:
  "mp (optimizeSimilarityVolume dev tile dl s) = mp s"
  "tileParams (optimizeSimilarityVolume dev tile dl s) = tileParams s"
  "sgmParams (optimizeSimilarityVolume dev tile dl s) = sgmParams s"
  "depths_hmh (optimizeSimilarityVolume dev tile dl s) = depths_hmh s"
  "depths_dmp (optimizeSimilarityVolume dev tile dl s) = depths_dmp s"
  "depthSimMap_dmp (optimizeSimilarityVolume dev tile dl s) = depthSimMap_dmp s"
  "volumeSecBestSim_dmp (optimizeSimilarityVolume dev tile dl s) = volumeSecBestSim_dmp s"
  "allocationLog (optimizeSimilarityVolume dev tile dl s) = allocationLog s"
  "cacheRequests (optimizeSimilarityVolume dev tile dl s)
     = cacheRequests s @ [(rc tile, scale (sgmParams s))]"
  by (simp_all add: optimizeSimilarityVolume_def requestCamera_def cuda_volumeOptimize_def
        Let_def)

lemma optimizeSimilarityVolume_allocations:
  "allocations (optimizeSimilarityVolume dev tile dl s) = allocations s"
  by (simp add: optimizeSimilarityVolume_def requestCamera_def cuda_volumeOptimize_def
        Let_def allocations_def allocation_def)

lemma optimizeSimilarityVolume_best:
  "content (volumeBestSim_dmp (optimizeSimilarityVolume dev tile dl s)) idx =
     (if inTile (downscaleROI dev (roi tile) (scale (sgmParams s) * stepXY (sgmParams s)))
           \<lparr>range_begin = 0, range_end = length (getDepths dl)\<rparr> idx
      then aggregate dev (content (volumeSecBestSim_dmp s)) (rc tile, scale (sgmParams s))
             (sgmParams s) (length (getDepths dl))
             (downscaleROI dev (roi tile) (scale (sgmParams s) * stepXY (sgmParams s))) idx
      else content (volumeBestSim_dmp s) idx)"
  by (simp add: optimizeSimilarityVolume_def requestCamera_def cuda_volumeOptimize_def Let_def)

lemma sgmRc_filtering_allocations:
  "allocations (sgmRc_filtering dev tile dl s) = allocations s"
  by (simp add: sgmRc_filtering_def optimizeSimilarityVolume_allocations)
     (simp add: allocations_def allocation_def copyFrom_def)

lemma sgmRc_filtering_sgmParams: "sgmParams (sgmRc_filtering dev tile dl s) = sgmParams s"
  by (simp add: sgmRc_filtering_def optimizeSimilarityVolume_frame)

lemma sgmRc_filtering_requests:
  "cacheRequests (sgmRc_filtering dev tile dl s)
     = cacheRequests s @ (if doSgmOptimizeVolume (sgmParams s)
                          then [(rc tile, scale (sgmParams s))] else [])"
  by (simp add: sgmRc_filtering_def optimizeSimilarityVolume_frame)

subsection \<open>Depth extraction\<close>

lemma retrieveBestDepth_frame:
  "mp (retrieveBestDepth dev tile dl s) = mp s"
  "tileParams (retrieveBestDepth dev tile dl s) = tileParams s"
  "sgmParams (retrieveBestDepth dev tile dl s) = sgmParams s"
  "depths_hmh (retrieveBestDepth dev tile dl s) = depths_hmh s"
  "depths_dmp (retrieveBestDepth dev tile dl s) = depths_dmp s"
  "volumeBestSim_dmp (retrieveBestDepth dev tile dl s) = volumeBestSim_dmp s"
  "volumeSecBestSim_dmp (retrieveBestDepth dev tile dl s) = volumeSecBestSim_dmp s"
  "volumeSliceAccA_dmp (retrieveBestDepth dev tile dl s) = volumeSliceAccA_dmp s"
  "volumeSliceAccB_dmp (retrieveBestDepth dev tile dl s) = volumeSliceAccB_dmp s"
  "volumeAxisAcc_dmp (retrieveBestDepth dev tile dl s) = volumeAxisAcc_dmp s"
  "allocationLog (retrieveBestDepth dev tile dl s) = allocationLog s"
  "cacheRequests (retrieveBestDepth dev tile dl s) = cacheRequests s @ [(rc tile, 1)]"
  by (simp_all add: retrieveBestDepth_def requestCamera_def cuda_volumeRetrieveBestDepth_def
        Let_def)

lemma retrieveBestDepth_allocations:
  "allocations (retrieveBestDepth dev tile dl s) = allocations s"
  by (simp add: retrieveBestDepth_def requestCamera_def cuda_volumeRetrieveBestDepth_def
        Let_def allocations_def allocation_def)

lemma retrieveBestDepth_map:
  "depthSimMap_dmp (retrieveBestDepth dev tile dl s) =
     cuda_volumeRetrieveBestDepth dev (depthSimMap_dmp s) (depths_dmp s) (volumeBestSim_dmp s)
       (rc tile, 1) (sgmParams s) \<lparr>range_begin = 0, range_end = length (getDepths dl)\<rparr>
       (downscaleROI dev (roi tile) (scale (sgmParams s) * stepXY (sgmParams s)))"
  by (simp add: retrieveBestDepth_def requestCamera_def Let_def)

lemma cuda_volumeRetrieveBestDepth_cong:
  "content vol = content vol' \<Longrightarrow>
     cuda_volumeRetrieveBestDepth dev out d vol cam sp dr r
       = cuda_volumeRetrieveBestDepth dev out d vol' cam sp dr r"
  by (simp add: cuda_volumeRetrieveBestDepth_def cong: if_cong)

subsection \<open>The whole of sgmRc\<close>

text \<open>
  The exports touch the allocation log alone, and no stage reads it: a call that returns
  leaves the state that the four stages produce, with the export allocations logged.
\<close>

lemma exportVolumeInformation_log:
  "exportVolumeInformation tile dl v name s
     = s\<lparr>allocationLog := allocationLog s @ [(''volumeSim_hmh'', getSize v)]\<rparr>"
  by (simp add: exportVolumeInformation_def)

lemma sgmRc_filtering_log:
  "sgmRc_filtering dev tile dl (s\<lparr>allocationLog := L\<rparr>)
     = (sgmRc_filtering dev tile dl s)\<lparr>allocationLog := L\<rparr>"
  by (simp add: sgmRc_filtering_def optimizeSimilarityVolume_def requestCamera_def
        cuda_volumeOptimize_def Let_def cong: if_cong)

lemma retrieveBestDepth_log:
  "retrieveBestDepth dev tile dl (s\<lparr>allocationLog := L\<rparr>)
     = (retrieveBestDepth dev tile dl s)\<lparr>allocationLog := L\<rparr>"
  by (simp add: retrieveBestDepth_def requestCamera_def Let_def cong: if_cong)

lemma sgmRc_upload_log: "allocationLog (sgmRc_upload dl s) = allocationLog s"
  using sgmRc_upload_frame [of s dl] by (simp add: uploadFrame_def)

lemma sgmRc_fusion_log: "allocationLog (sgmRc_fusion dev tile dl s) = allocationLog s"
  using sgmRc_fusion_frame [of s dev tile dl] by (simp add: fusionFrame_def)

lemma sgmRc_filtering_log_same:
  "allocationLog (sgmRc_filtering dev tile dl s) = allocationLog s"
  by (simp add: sgmRc_filtering_def optimizeSimilarityVolume_frame)

lemma allocations_getSize:
  "allocations t = allocations s \<Longrightarrow>
     getSize (volumeBestSim_dmp t) = getSize (volumeBestSim_dmp s)
     \<and> getSize (volumeSecBestSim_dmp t) = getSize (volumeSecBestSim_dmp s)"
  by (simp add: allocations_def allocation_def)

lemma sgmRc_stages_log: "allocationLog (sgmRc_stages dev tile dl s) = allocationLog s"
  by (simp add: sgmRc_stages_def retrieveBestDepth_frame sgmRc_filtering_log_same
        sgmRc_fusion_log sgmRc_upload_log)

lemma getSize_fused:
  "getSize (volumeSecBestSim_dmp (sgmRc_fusion dev tile dl (sgmRc_upload dl s)))
     = getSize (volumeSecBestSim_dmp s)"
proof -
  have "allocations (sgmRc_fusion dev tile dl (sgmRc_upload dl s)) = allocations s"
    by (simp add: sgmRc_fusion_allocations sgmRc_upload_allocations)
  then show ?thesis using allocations_getSize by blast
qed

lemma getSize_filtered:
  "getSize (volumeBestSim_dmp
      (sgmRc_filtering dev tile dl (sgmRc_fusion dev tile dl (sgmRc_upload dl s))))
     = getSize (volumeBestSim_dmp s)"
proof -
  have "allocations (sgmRc_filtering dev tile dl (sgmRc_fusion dev tile dl (sgmRc_upload dl s)))
      = allocations s"
    by (simp add: sgmRc_filtering_allocations sgmRc_fusion_allocations sgmRc_upload_allocations)
  then show ?thesis using allocations_getSize by blast
qed

lemma sgmRc_result:
  assumes "sgmTCams tile \<noteq> []" and "getDepths dl \<noteq> []"
  shows "sgmRc dev tile dl s
     = Inr ((sgmRc_stages dev tile dl s)
             \<lparr>allocationLog := allocationLog s @ exportAllocations s\<rparr>)"
proof (cases "exportIntermediateResults (sgmParams s)")
  case False
  have "(sgmRc_stages dev tile dl s)\<lparr>allocationLog := allocationLog s @ exportAllocations s\<rparr>
      = sgmRc_stages dev tile dl s"
    using False sgmRc_stages_log [of dev tile dl s] by (simp add: exportAllocations_def)
  moreover have "sgmRc dev tile dl s = Inr (sgmRc_stages dev tile dl s)"
    using assms False
    by (simp add: sgmRc_def Let_def sgmRc_stages_def retrieveBestDepth_frame
          sgmRc_filtering_sgmParams sgmRc_fusion_sgmParams sgmRc_upload_sgmParams)
  ultimately show ?thesis by (simp only:)
next
  case True
  let ?f = "sgmRc_fusion dev tile dl (sgmRc_upload dl s)"
  let ?a1 = "(''volumeSim_hmh'', getSize (volumeSecBestSim_dmp s))"
  let ?a2 = "(''volumeSim_hmh'', getSize (volumeBestSim_dmp s))"
  let ?s3 = "exportVolumeInformation tile dl (volumeSecBestSim_dmp ?f) ''beforeFiltering'' ?f"
  let ?s4 = "sgmRc_filtering dev tile dl ?s3"
  let ?s5 = "exportVolumeInformation tile dl (volumeBestSim_dmp ?s4) ''afterFiltering'' ?s4"
  let ?s6 = "retrieveBestDepth dev tile dl ?s5"
  let ?s7 = "writeDepthSimMap tile (depthSimMap_dmp ?s6) ''_sgm'' ?s6"
  have p2: "exportIntermediateResults (sgmParams ?f)"
    using True by (simp add: sgmRc_fusion_sgmParams sgmRc_upload_sgmParams)
  have s3: "?s3 = ?f\<lparr>allocationLog := allocationLog s @ [?a1]\<rparr>"
    by (simp add: exportVolumeInformation_log sgmRc_fusion_log sgmRc_upload_log getSize_fused)
  have s4: "?s4 = (sgmRc_filtering dev tile dl ?f)\<lparr>allocationLog := allocationLog s @ [?a1]\<rparr>"
    by (simp only: s3 sgmRc_filtering_log)
  have p4: "exportIntermediateResults (sgmParams ?s4)"
    using p2 by (simp add: s4 sgmRc_filtering_sgmParams)
  have s5: "?s5 = (sgmRc_filtering dev tile dl ?f)
                    \<lparr>allocationLog := allocationLog s @ [?a1, ?a2]\<rparr>"
    by (simp only: s4) (simp add: exportVolumeInformation_def getSize_filtered)
  have s6: "?s6 = (sgmRc_stages dev tile dl s)\<lparr>allocationLog := allocationLog s @ [?a1, ?a2]\<rparr>"
    by (simp only: s5 retrieveBestDepth_log sgmRc_stages_def)
  have p6: "exportIntermediateResults (sgmParams ?s6)"
    using True
    by (simp add: s6 sgmRc_stages_def retrieveBestDepth_frame sgmRc_filtering_sgmParams
          sgmRc_fusion_sgmParams sgmRc_upload_sgmParams)
  have s7: "?s7 = ?s6" by (simp only: writeDepthSimMap_def)
  have "sgmRc dev tile dl s = Inr ?s7"
    unfolding sgmRc_def Let_def using assms p2 p4 p6 by (simp only: if_True if_False simp_thms)
  then show ?thesis
    using True by (simp only: writeDepthSimMap_def s6 exportAllocations_def if_True)
qed

lemma sgmRc_Inr:
  "sgmRc dev tile dl s = Inr s' \<longleftrightarrow>
     sgmTCams tile \<noteq> [] \<and> getDepths dl \<noteq> []
     \<and> s' = (sgmRc_stages dev tile dl s)
              \<lparr>allocationLog := allocationLog s @ exportAllocations s\<rparr>"
proof (cases "sgmTCams tile \<noteq> [] \<and> getDepths dl \<noteq> []")
  case True
  then show ?thesis using sgmRc_result [of tile dl dev s] by auto
next
  case False
  then show ?thesis by (auto simp: sgmRc_def Let_def)
qed

lemma sgmRc_Inr_no_export:
  assumes "\<not> exportIntermediateResults (sgmParams s)"
  shows "sgmRc dev tile dl s = Inr s' \<longleftrightarrow>
     sgmTCams tile \<noteq> [] \<and> getDepths dl \<noteq> []
     \<and> s' = retrieveBestDepth dev tile dl
              (sgmRc_filtering dev tile dl (sgmRc_fusion dev tile dl (sgmRc_upload dl s)))"
proof -
  have "(sgmRc_stages dev tile dl s)\<lparr>allocationLog := allocationLog s @ exportAllocations s\<rparr>
      = sgmRc_stages dev tile dl s"
    using assms sgmRc_stages_log [of dev tile dl s] by (simp add: exportAllocations_def)
  then show ?thesis by (simp add: sgmRc_Inr) (simp add: sgmRc_stages_def)
qed

lemma sgmRc_allocations:
  assumes "sgmRc dev tile dl s = Inr s' \<or> sgmRc dev tile dl s = Inl (e, s')"
  shows "allocations s' = allocations s"
proof -
  have "s' = s \<or> s' = (sgmRc_stages dev tile dl s)
              \<lparr>allocationLog := allocationLog s @ exportAllocations s\<rparr>"
    using assms by (auto simp: sgmRc_Inr) (auto simp: sgmRc_def Let_def split: if_splits)
  moreover have "allocations (sgmRc_stages dev tile dl s) = allocations s"
    by (simp add: sgmRc_stages_def retrieveBestDepth_allocations sgmRc_filtering_allocations
          sgmRc_fusion_allocations sgmRc_upload_allocations)
  ultimately show ?thesis
    by (auto simp: allocations_def)
qed

lemma sgmRc_allocationLog:
  assumes "sgmRc dev tile dl s = Inr s'"
  shows "allocationLog s' = allocationLog s @ exportAllocations s"
  using assms by (simp add: sgmRc_Inr)

subsection \<open>Single precision\<close>

text \<open>
  Rounding errs by at most half a unit in the last place, and integers below \<open>2 ^ 24\<close>
  are exact.
\<close>

lemma rne_err: "\<bar>of_int (rne y) - y\<bar> \<le> 1 / 2"
proof -
  have "of_int \<lfloor>y\<rfloor> \<le> y" "y < of_int \<lfloor>y\<rfloor> + 1" by linarith+
  then show ?thesis by (auto simp: rne_def Let_def)
qed

lemma rne_of_int: "rne (of_int k) = k"
  by (simp add: rne_def)

lemma floorlog_scaled:
  fixes a :: real
  assumes "1 \<le> a * 2 ^ 64" and "fl = floorlog 2 (nat \<lfloor>a * 2 ^ 64\<rfloor>)"
  shows "2 ^ (fl - 1) \<le> a * 2 ^ 64" and "a * 2 ^ 64 < 2 ^ fl" and "1 \<le> fl"
proof -
  define y where "y = a * 2 ^ 64"
  define N where "N = nat \<lfloor>y\<rfloor>"
  have one: "1 \<le> y" using assms(1) by (simp only: y_def)
  have fl: "fl = floorlog 2 N" using assms(2) by (simp only: N_def y_def)
  have N: "0 < N" using one by (simp add: N_def)
  have b: "2 ^ (fl - 1) \<le> N" "N < 2 ^ fl"
    using floorlog_bounds [of N 2] N by (simp_all add: fl)
  have Ny: "real N \<le> y" "y < real N + 1" using one by (simp_all add: N_def)
  have "real (2 ^ (fl - 1)) \<le> real N" using b(1) of_nat_le_iff by blast
  then have "(2::real) ^ (fl - 1) \<le> real N" by simp
  then have "2 ^ (fl - 1) \<le> y" using Ny(1) by linarith
  then show "2 ^ (fl - 1) \<le> a * 2 ^ 64" by (simp only: y_def)
  have "N + 1 \<le> 2 ^ fl" using b(2) by simp
  then have "real (N + 1) \<le> real (2 ^ fl)" using of_nat_le_iff by blast
  then have "real N + 1 \<le> (2::real) ^ fl" by simp
  then have "y < 2 ^ fl" using Ny(2) by linarith
  then show "a * 2 ^ 64 < 2 ^ fl" by (simp only: y_def)
  show "1 \<le> fl" using N by (simp add: fl floorlog_def)
qed

lemma f32_mag_unit:
  fixes a :: real
  assumes "fl = floorlog 2 (nat \<lfloor>a * 2 ^ 64\<rfloor>)" and "u = 2 ^ fl / 2 ^ 88"
  shows "f32_mag a = of_int (rne (a / u)) * u"
proof -
  have "a * 2 ^ 88 / 2 ^ fl = a / u" by (simp only: assms(2) divide_divide_eq_right)
  then have "of_int (rne (a * 2 ^ 88 / 2 ^ fl)) * 2 ^ fl / 2 ^ 88 = of_int (rne (a / u)) * u"
    by (simp only: assms(2) times_divide_eq_right)
  then show ?thesis
    unfolding f32_mag_def Let_def assms(1) [symmetric] .
qed

lemma f32_mag_err:
  fixes a :: real
  assumes "1 \<le> a * 2 ^ 64"
  shows "\<bar>f32_mag a - a\<bar> \<le> a / 2 ^ 24"
proof -
  define fl where "fl = floorlog 2 (nat \<lfloor>a * 2 ^ 64\<rfloor>)"
  define u :: real where "u = 2 ^ fl / 2 ^ 88"
  have u: "0 < u" by (simp add: u_def)
  have lo: "2 ^ (fl - 1) \<le> a * 2 ^ 64" and fl1: "1 \<le> fl"
    using floorlog_scaled [OF assms fl_def] by blast+
  have "f32_mag a = of_int (rne (a / u)) * u"
    using fl_def u_def by (rule f32_mag_unit)
  then have "f32_mag a - a = (of_int (rne (a / u)) - a / u) * u"
    using u by (simp add: algebra_simps)
  then have "\<bar>f32_mag a - a\<bar> = \<bar>of_int (rne (a / u)) - a / u\<bar> * u"
    using u by (simp add: abs_mult)
  also have "\<dots> \<le> (1 / 2) * u"
    using rne_err [of "a / u"] u by (intro mult_right_mono) simp_all
  also have "\<dots> = 2 ^ (fl - 1) / 2 ^ 88"
  proof -
    have "(2::real) ^ fl = 2 * 2 ^ (fl - 1)" using fl1 by (cases fl) simp_all
    then show ?thesis by (simp only: u_def)
  qed
  also have "\<dots> \<le> a / 2 ^ 24"
  proof -
    have "2 ^ (fl - 1) / 2 ^ 88 \<le> a * 2 ^ 64 / 2 ^ 88"
      using lo by (rule divide_right_mono) simp
    also have "a * 2 ^ 64 / 2 ^ 88 = a / 2 ^ 24" by simp
    finally show ?thesis .
  qed
  finally show ?thesis .
qed

lemma f32_mag_integral:
  fixes k :: int
  assumes "1 \<le> k" and "k < 2 ^ 24"
  shows "f32_mag (of_int k) = of_int k"
proof -
  define a :: real where "a = of_int k"
  define fl where "fl = floorlog 2 (nat \<lfloor>a * 2 ^ 64\<rfloor>)"
  define u :: real where "u = 2 ^ fl / 2 ^ 88"
  have a1: "1 \<le> a" using assms(1) by (simp add: a_def)
  then have one: "1 \<le> a * 2 ^ 64"
    by (smt (verit, best) mult_le_cancel_left1 one_le_power)
  have lo: "2 ^ (fl - 1) \<le> a * 2 ^ 64" and fl1: "1 \<le> fl"
    using floorlog_scaled [OF one fl_def] by blast+
  have "a < 2 ^ 24" using assms(2) by (simp add: a_def)
  then have "a * 2 ^ 64 < 2 ^ 24 * 2 ^ 64" by (rule mult_strict_right_mono) simp
  then have "(2::real) ^ (fl - 1) < 2 ^ 88" using lo by simp
  then have "fl - 1 < 88" by (simp only: power_strict_increasing_iff [of 2] one_less_numeral_iff semiring_norm)
  then have le: "fl \<le> 88" by simp
  then have e: "(2::real) ^ 88 = 2 ^ (88 - fl) * 2 ^ fl"
    by (simp only: power_add [symmetric] le_add_diff_inverse2)
  have "a / u = a * 2 ^ 88 / 2 ^ fl"
    by (simp only: u_def divide_divide_eq_right)
  also have "\<dots> = a * (2 ^ (88 - fl) * 2 ^ fl) / 2 ^ fl"
    by (simp only: e)
  also have "\<dots> = a * 2 ^ (88 - fl)"
    by simp
  finally have "a / u = of_int (k * 2 ^ (88 - fl))"
    by (simp add: a_def)
  then have "of_int (rne (a / u)) * u = of_int (k * 2 ^ (88 - fl)) * u"
    by (simp only: rne_of_int)
  also have "\<dots> = a / u * u" using \<open>a / u = of_int (k * 2 ^ (88 - fl))\<close> by simp
  also have "\<dots> = a" by (simp add: u_def)
  finally have "of_int (rne (a / u)) * u = a" .
  moreover have "f32_mag a = of_int (rne (a / u)) * u"
    using fl_def u_def by (rule f32_mag_unit)
  ultimately show ?thesis by (simp add: a_def)
qed

lemma f32_of_nat_exact: "n < 2 ^ 24 \<Longrightarrow> f32 (real n) = real n"
proof (cases "n = 0")
  case True
  then show ?thesis by (simp add: f32_def)
next
  case False
  assume "n < 2 ^ 24"
  then have "int n < 2 ^ 24" by (metis of_nat_less_iff of_nat_numeral of_nat_power)
  moreover have "1 \<le> int n" using False by simp
  ultimately have "f32_mag (of_int (int n)) = of_int (int n)" by (rule f32_mag_integral [rotated])
  then show ?thesis using False by (simp add: f32_def)
qed

subsection \<open>Tile dimensions\<close>

text \<open>
  Below \<open>2 ^ 24\<close> the ceiling of the single precision quotient is the ceiling of the
  exact one, which is the integer ceiling division.
\<close>

lemma div_offset: "r < d \<Longrightarrow> (q * d + r) div d = (q::nat)"
  by simp

lemma ceil_div_nat: "0 < d \<Longrightarrow> nat \<lceil>real n / real d\<rceil> = (n + d - 1) div d"
proof -
  assume d: "0 < d"
  obtain q r where qr: "n = q * d + r" "r < d"
    by (metis d div_mult_mod_eq mod_less_divisor)
  show ?thesis
  proof (cases "r = 0")
    case True
    then have "real n / real d = real q" using d qr by simp
    moreover have "(n + d - 1) div d = q"
    proof -
      obtain k where k: "k < d" "n + d - 1 = q * d + k"
        using True d qr by (metis Nat.add_diff_assoc Suc_leI One_nat_def add.right_neutral diff_less zero_less_one)
      then show ?thesis using div_offset by metis
    qed
    ultimately show ?thesis by simp
  next
    case False
    have "real n / real d = real q + real r / real d"
      using d qr by (simp add: field_simps)
    moreover have "0 < real r / real d" "real r / real d < 1" using False qr d by simp_all
    ultimately have "\<lceil>real n / real d\<rceil> = int q + 1"
      by (simp add: ceiling_eq_iff)
    moreover have "(n + d - 1) div d = q + 1"
    proof -
      have "n + d - 1 = (q + 1) * d + (r - 1)" using qr False by (simp add: algebra_simps)
      moreover have "r - 1 < d" using qr by simp
      ultimately show ?thesis using div_offset by metis
    qed
    ultimately show ?thesis by simp
  qed
qed

lemma int_mul_exact: "0 \<le> a * b \<Longrightarrow> a * b < 2 ^ 31 \<Longrightarrow> int_mul a b = a * b"
  by (simp add: int_mul_def)

lemma size_t_of_int_nat: "size_t_of_int (int n) = n" if "n < 2 ^ 64"
  using that by (simp add: size_t_of_int_def nat_mod_distrib)

lemma f32_pos_err:
  fixes x :: real
  assumes "1 \<le> x * 2 ^ 64"
  shows "\<bar>f32 x - x\<bar> \<le> x / 2 ^ 24"
proof -
  have "0 < x" using assms by (smt (verit) mult_nonpos_nonneg zero_le_power)
  then show ?thesis using f32_mag_err [OF assms] by (simp add: f32_def)
qed

lemma ceiling_f32_quotient:
  assumes "w < 2 ^ 24" and "0 < d" and "d < 2 ^ 24"
  shows "\<lceil>f32 (real w / real d)\<rceil> = \<lceil>real w / real d\<rceil>"
proof (cases "d dvd w")
  case True
  then obtain q where q: "w = d * q" by blast
  then have "q \<le> w" using assms(2) by simp
  then have "q < 2 ^ 24" using assms(1) by simp
  moreover have "real w / real d = real q" using q assms(2) by simp
  ultimately show ?thesis by (simp add: f32_of_nat_exact)
next
  case False
  define k where "k = w div d"
  define r where "r = w mod d"
  have r: "0 < r" "r < d" using False assms(2) by (auto simp: r_def dvd_eq_mod_eq_0)
  have w: "w = k * d + r" by (simp add: k_def r_def)
  define x where "x = real w / real d"
  have x: "x = real k + real r / real d"
    using assms(2) by (simp add: x_def w field_simps)
  have dpos: "0 < real d" using assms(2) by simp
  have lo: "real k + 1 / real d \<le> x"
  proof -
    have "1 \<le> real r" using r(1) by simp
    then have "1 / real d \<le> real r / real d" using dpos by (simp add: divide_right_mono)
    then show ?thesis by (simp add: x)
  qed
  have hi: "x \<le> real k + 1 - 1 / real d"
  proof -
    have "real r \<le> real d - 1" using r(2) by (simp add: of_nat_diff)
    then have "real r / real d \<le> (real d - 1) / real d" using dpos by (simp add: divide_right_mono)
    also have "\<dots> = 1 - 1 / real d" using dpos by (simp add: field_simps)
    finally show ?thesis by (simp add: x)
  qed
  have xpos: "0 < x" using lo dpos by (smt (verit) divide_pos_pos of_nat_0_le_iff)
  have small: "x / 2 ^ 24 < 1 / real d"
  proof -
    have "real w < 2 ^ 24" using assms(1) by (metis of_nat_less_iff of_nat_numeral of_nat_power)
    then have "real w / real d < 2 ^ 24 / real d" using dpos by (simp add: divide_strict_right_mono)
    then have "x / 2 ^ 24 < 2 ^ 24 / real d / 2 ^ 24" unfolding x_def by (simp add: divide_strict_right_mono)
    then show ?thesis by simp
  qed
  have big: "1 \<le> x * 2 ^ 64"
  proof -
    have "real d < 2 ^ 24" using assms(3) by (metis of_nat_less_iff of_nat_numeral of_nat_power)
    then have "1 / 2 ^ 24 < 1 / real d" using dpos by (simp add: field_simps)
    then have "1 / 2 ^ 24 \<le> x" using lo by (smt (verit) of_nat_0_le_iff)
    then have "1 / 2 ^ 24 * 2 ^ 64 \<le> x * 2 ^ 64" by (rule mult_right_mono) simp
    then show ?thesis by simp
  qed
  have "\<bar>f32 x - x\<bar> < 1 / real d"
    using f32_pos_err [OF big] small by linarith
  then have "real k < f32 x" "f32 x < real k + 1"
    using lo hi by linarith+
  then have "\<lceil>f32 x\<rceil> = int k + 1"
    by (simp add: ceiling_eq_iff)
  moreover have "real k < x" "x < real k + 1"
    using lo hi dpos by (smt (verit) divide_pos_pos)+
  then have "\<lceil>x\<rceil> = int k + 1"
    by (simp add: ceiling_eq_iff)
  ultimately show ?thesis by (simp add: x_def)
qed

lemma maxTileDim_exact:
  assumes "w < 2 ^ 24" and "0 < d" and "d < 2 ^ 24"
  shows "maxTileDim w (int d) = \<lceil>real w / real d\<rceil>"
  using assms by (simp add: maxTileDim_def f32_of_nat_exact ceiling_f32_quotient)

text \<open>Beyond \<open>2 ^ 24\<close> the conversion of the extent already rounds.\<close>

lemma floorlog_scaled_eq:
  fixes a :: real
  assumes "2 ^ (fl - 1) \<le> a * 2 ^ 64" and "a * 2 ^ 64 < 2 ^ fl" and "1 \<le> fl"
  shows "floorlog 2 (nat \<lfloor>a * 2 ^ 64\<rfloor>) = fl"
proof -
  define y where "y = a * 2 ^ 64"
  define N where "N = nat \<lfloor>y\<rfloor>"
  have lo: "2 ^ (fl - 1) \<le> y" and hi: "y < 2 ^ fl" using assms(1,2) by (simp_all only: y_def)
  have "0 \<le> y" using lo by (smt (verit) zero_le_power)
  have "(2::int) ^ (fl - 1) \<le> \<lfloor>y\<rfloor>" using lo by (simp add: le_floor_iff)
  then have a: "2 ^ (fl - 1) \<le> N" unfolding N_def
    by (metis nat_mono nat_numeral nat_power_eq zero_le_numeral)
  have "\<lfloor>y\<rfloor> < 2 ^ fl" using hi by (simp add: floor_less_iff)
  then have b: "N < 2 ^ fl" unfolding N_def
    by (metis nat_less_iff nat_numeral nat_power_eq zero_le_numeral zero_less_numeral zero_less_power nat_mono_iff)
  have "floorlog 2 N \<le> fl" using b by (intro floorlog_leI) simp_all
  moreover have "fl \<le> floorlog 2 N" using a by (intro floorlog_geI) simp_all
  ultimately show ?thesis by (simp add: N_def y_def)
qed

lemma f32_16777217: "f32 16777217 = 16777216"
proof -
  have fl: "floorlog 2 (nat \<lfloor>(16777217::real) * 2 ^ 64\<rfloor>) = 89"
    by (rule floorlog_scaled_eq) simp_all
  have "f32_mag 16777217 = of_int (rne (16777217 / 2)) * 2"
    by (rule f32_mag_unit [OF fl [symmetric]]) simp
  moreover have "rne (16777217 / 2) = 8388608"
    by (simp add: rne_def Let_def)
  ultimately show ?thesis by (simp add: f32_def)
qed

lemma f32_16777216: "f32 16777216 = 16777216"
proof -
  have fl: "floorlog 2 (nat \<lfloor>(16777216::real) * 2 ^ 64\<rfloor>) = 89"
    by (rule floorlog_scaled_eq) simp_all
  have "f32_mag 16777216 = of_int (rne (16777216 / 2)) * 2"
    by (rule f32_mag_unit [OF fl [symmetric]]) simp
  moreover have "rne (16777216 / 2) = 8388608"
    by (simp add: rne_def Let_def)
  ultimately show ?thesis by (simp add: f32_def)
qed

lemma f32_1: "f32 1 = 1"
  using f32_of_nat_exact [of 1] by simp

lemma maxTileDim_rounds: "maxTileDim 16777217 1 = 16777216"
  by (simp add: maxTileDim_def f32_16777217 f32_16777216 f32_1)

text \<open>
  Below \<open>2 ^ 24\<close> the extents that the constructor computes are the exact ceilings, and
  they fit \<^verbatim>\<open>size_t\<close> unchanged.
\<close>

lemma tile_extent:
  assumes "1 \<le> a" and "1 \<le> b" and "a * b < 2 ^ 24" and "w < 2 ^ 24"
  shows "maxTileDim w (int_mul (int a) (int b)) = \<lceil>real w / real (a * b)\<rceil>"
    and "size_t_of_int (maxTileDim w (int_mul (int a) (int b))) = nat \<lceil>real w / real (a * b)\<rceil>"
    and "0 \<le> maxTileDim w (int_mul (int a) (int b))"
proof -
  have d: "0 < a * b" using assms(1,2) by simp
  have "int a * int b = int (a * b)" by simp
  moreover have "int (a * b) < 2 ^ 31"
  proof -
    have "a * b < 2 ^ 31" using assms(3) by (rule less_trans) simp
    then show ?thesis by (metis of_nat_less_iff of_nat_numeral of_nat_power)
  qed
  ultimately have m: "int_mul (int a) (int b) = int (a * b)"
    by (simp only: int_mul_exact of_nat_0_le_iff)
  show e: "maxTileDim w (int_mul (int a) (int b)) = \<lceil>real w / real (a * b)\<rceil>"
    by (simp only: m maxTileDim_exact [OF assms(4) d assms(3)])
  have nn: "0 \<le> \<lceil>real w / real (a * b)\<rceil>"
    by (smt (verit) ceiling_mono ceiling_zero divide_nonneg_nonneg of_nat_0_le_iff)
  then show "0 \<le> maxTileDim w (int_mul (int a) (int b))" by (simp only: e)
  have "real w / real (a * b) \<le> real w"
  proof -
    have "1 \<le> real (a * b)" using d by (metis One_nat_def Suc_leI of_nat_1 of_nat_le_iff)
    then have "real w / real (a * b) \<le> real w / 1"
      by (intro divide_left_mono) simp_all
    then show ?thesis by simp
  qed
  then have "\<lceil>real w / real (a * b)\<rceil> \<le> int w"
    by (simp add: ceiling_le_iff)
  moreover have "int w < 2 ^ 64"
  proof -
    have "w < 2 ^ 64" using assms(4) by (rule less_trans) simp
    then show ?thesis by (metis of_nat_less_iff of_nat_numeral of_nat_power)
  qed
  ultimately have "\<lceil>real w / real (a * b)\<rceil> < 2 ^ 64" by linarith
  then show "size_t_of_int (maxTileDim w (int_mul (int a) (int b))) = nat \<lceil>real w / real (a * b)\<rceil>"
    using nn by (simp add: e size_t_of_int_def)
qed

lemma tile_side:
  assumes "0 \<le> x" "0 \<le> y" "size_t_of_int x = nat x" "size_t_of_int y = nat y"
  shows "size_t_of_int (max x y) = max (nat x) (nat y)"
  using assms by (auto simp: max_def)

lemma engine0_extents:
  "maxTileDim (tp_width tp0) (int_mul (int (scale sp0)) (int (stepXY sp0))) = 17"
  "maxTileDim (tp_height tp0) (int_mul (int (scale sp0)) (int (stepXY sp0))) = 12"
proof -
  have a: "1 \<le> scale sp0" "1 \<le> stepXY sp0" "scale sp0 * stepXY sp0 < 2 ^ 24"
    "tp_width tp0 < 2 ^ 24" "tp_height tp0 < 2 ^ 24"
    by (simp_all add: sp0_def tp0_def)
  show "maxTileDim (tp_width tp0) (int_mul (int (scale sp0)) (int (stepXY sp0))) = 17"
    by (simp only: tile_extent(1) [OF a(1,2,3,4)]) (simp add: sp0_def tp0_def)
  show "maxTileDim (tp_height tp0) (int_mul (int (scale sp0)) (int (stepXY sp0))) = 12"
    by (simp only: tile_extent(1) [OF a(1,2,3,5)]) (simp add: sp0_def tp0_def)
qed

lemma wide_tile_extents:
  "maxTileDim (tp_width tp1) (int_mul (int (scale sp1)) (int (stepXY sp1))) = 16777216"
  "maxTileDim (tp_height tp1) (int_mul (int (scale sp1)) (int (stepXY sp1))) = 48"
proof -
  have m: "int_mul (int (scale sp1)) (int (stepXY sp1)) = 1"
    by (simp add: sp1_def int_mul_def)
  show "maxTileDim (tp_width tp1) (int_mul (int (scale sp1)) (int (stepXY sp1))) = 16777216"
    using maxTileDim_rounds by (simp add: m tp1_def)
  have "maxTileDim 48 (int 1) = \<lceil>real 48 / real 1\<rceil>"
    by (rule maxTileDim_exact) simp_all
  then show "maxTileDim (tp_height tp1) (int_mul (int (scale sp1)) (int (stepXY sp1))) = 48"
    by (simp add: m tp1_def)
qed

subsection \<open>A single target camera\<close>

lemma fusion_example_single:
  "map (\<lambda>z. content (volumeBestSim_dmp (sgmRc_fusion dev0 tile1 dl0 engine0)) [0, 0, z])
       [0, 1, 2, 3]
     = [10, 11, 255, 255]
   \<and> map (\<lambda>z. content (volumeSecBestSim_dmp (sgmRc_fusion dev0 tile1 dl0 engine0)) [0, 0, z])
       [0, 1, 2, 3]
     = [10, 11, 255, 255]"
  by (simp add: sgmRc_fusion_def computeSimilarityVolumes_def computeSimilarityVolumes_tc_def
        cuda_volumeComputeSimilarity_def cuda_volumeInitialize_def requestCamera_def Let_def
        copyFrom_def tile1_def dl0_def dev0_def roi0_def engine0_def Sgm_def sp0_def
        tcDepthRange_def inTile_def range_size_def fuseBest_def fuseSecBest_def)

section \<open>Properties of the engine\<close>

subsection \<open>Caller-contract violations\<close>

text \<open>
  C1. \<^verbatim>\<open>sgmRc\<close> throws if and only if the tile has no target camera or the depth list
  is empty. When it throws, the engine is exactly as it was on entry: no buffer has been
  written (neither the depth staging buffer nor a volume nor the output map) and no
  camera has been requested. The error names the view id of the tile's reference camera.
\<close>

theorem sgmRc_throws_iff_empty:
  "(isl (sgmRc dev tile dl s) \<longleftrightarrow> sgmTCams tile = [] \<or> getDepths dl = [])
   \<and> (\<forall>e s'. sgmRc dev tile dl s = Inl (e, s')
         \<longrightarrow> s' = s \<and> e = NoDepthsOrNoTCams (getViewId (mp s) (rc tile)))"
  by (simp add: sgmRc_def Let_def)

theorem sgmRc_throws_iff_empty_witness:
  "isl (sgmRc dev0 tile0 dl0 engine0)
   \<and> sgmRc dev0 tile0 dl0 engine0 = Inl (NoDepthsOrNoTCams 100, engine0)"
  using sgmRc_throws_iff_empty [of dev0 tile0 dl0 engine0]
  by (cases "sgmRc dev0 tile0 dl0 engine0")
     (auto simp: tile0_def engine0_def Sgm_def Let_def mvp0_def)

subsection \<open>Fusion\<close>

text \<open>
  C2. With fewer than two target cameras, so in particular with exactly one, the fusion
  stage of \<^verbatim>\<open>sgmRc\<close> copies the best volume into the second best one: the best
  volume is the one that \<^verbatim>\<open>computeSimilarityVolumes\<close> left, the cells of the second
  best volume are the cells of that best volume, and so the two volumes are equal cell
  for cell once the stage is done.
\<close>

theorem fusion_single_tc_secBest_eq_best:
  "length (sgmTCams tile) < 2 \<Longrightarrow>
     (\<forall>idx. content (volumeSecBestSim_dmp (sgmRc_fusion dev tile dl s)) idx
           = content (volumeBestSim_dmp (sgmRc_fusion dev tile dl s)) idx)
     \<and> volumeBestSim_dmp (sgmRc_fusion dev tile dl s)
           = volumeBestSim_dmp (computeSimilarityVolumes dev tile dl s)
     \<and> content (volumeSecBestSim_dmp (sgmRc_fusion dev tile dl s))
           = content (volumeBestSim_dmp (computeSimilarityVolumes dev tile dl s))"
  by (simp add: sgmRc_fusion_def Let_def copyFrom_def)

theorem fusion_single_tc_secBest_eq_best_witness:
  "length (sgmTCams tile1) = 1
   \<and> (\<forall>idx. content (volumeSecBestSim_dmp (sgmRc_fusion dev0 tile1 dl0 engine0)) idx
           = content (volumeBestSim_dmp (sgmRc_fusion dev0 tile1 dl0 engine0)) idx)
   \<and> map (\<lambda>z. content (volumeBestSim_dmp (sgmRc_fusion dev0 tile1 dl0 engine0)) [0, 0, z])
         [0, 1, 2, 3] = [10, 11, 255, 255]
   \<and> map (\<lambda>z. content (volumeSecBestSim_dmp (sgmRc_fusion dev0 tile1 dl0 engine0)) [0, 0, z])
         [0, 1, 2, 3] = [10, 11, 255, 255]"
proof -
  have n: "length (sgmTCams tile1) = 1" by (simp add: tile1_def)
  then have "length (sgmTCams tile1) < 2" by simp
  note t = fusion_single_tc_secBest_eq_best [OF this, of dev0 dl0 engine0]
  have "volumeBestSim_dmp (sgmRc_fusion dev0 tile1 dl0 engine0)
      = volumeBestSim_dmp (computeSimilarityVolumes dev0 tile1 dl0 engine0)"
    and "content (volumeSecBestSim_dmp (sgmRc_fusion dev0 tile1 dl0 engine0))
      = content (volumeBestSim_dmp (computeSimilarityVolumes dev0 tile1 dl0 engine0))"
    using t by blast+
  then show ?thesis
    using n t fusion_example_single by simp
qed

text \<open>
  C4. With two or more target cameras the fusion stage is the fusion over all target
  cameras and nothing else, and after it the second best cost is at least the best cost
  in every cell of the volume, hence in every cell that some target camera's depth
  range covers. In every cell the best cost is the lowest and the second best cost the
  second lowest among the costs of the target cameras whose rounds cover the cell,
  taken together with the initial 255 of either volume.
\<close>

theorem fusion_secBest_ge_best:
  "2 \<le> length (sgmTCams tile) \<Longrightarrow>
     sgmRc_fusion dev tile dl s = computeSimilarityVolumes dev tile dl s
     \<and> (\<forall>idx. content (volumeBestSim_dmp (sgmRc_fusion dev tile dl s)) idx
              \<le> content (volumeSecBestSim_dmp (sgmRc_fusion dev tile dl s)) idx)
     \<and> (\<forall>idx. content (volumeBestSim_dmp (sgmRc_fusion dev tile dl s)) idx
              = lowest ({#255, 255#}
                  + contributions dev tile dl s idx [0..<length (sgmTCams tile)])
            \<and> content (volumeSecBestSim_dmp (sgmRc_fusion dev tile dl s)) idx
              = secondLowest ({#255, 255#}
                  + contributions dev tile dl s idx [0..<length (sgmTCams tile)]))"
proof -
  assume "2 \<le> length (sgmTCams tile)"
  then have "sgmRc_fusion dev tile dl s = computeSimilarityVolumes dev tile dl s"
    by (simp add: sgmRc_fusion_def Let_def)
  then show ?thesis
    using computeSimilarityVolumes_ordered computeSimilarityVolumes_two_lowest
    by (simp only:) blast
qed

theorem fusion_secBest_ge_best_witness:
  "2 \<le> length (sgmTCams tile2)
   \<and> (\<forall>idx. content (volumeBestSim_dmp (sgmRc_fusion dev0 tile2 dl0 engine0)) idx
              \<le> content (volumeSecBestSim_dmp (sgmRc_fusion dev0 tile2 dl0 engine0)) idx)
   \<and> content (volumeBestSim_dmp (sgmRc_fusion dev0 tile2 dl0 engine0)) [0, 0, 1] = 11
   \<and> content (volumeSecBestSim_dmp (sgmRc_fusion dev0 tile2 dl0 engine0)) [0, 0, 1] = 21"
proof -
  have n: "2 \<le> length (sgmTCams tile2)" by (simp add: tile2_def)
  then have "\<forall>idx. content (volumeBestSim_dmp (sgmRc_fusion dev0 tile2 dl0 engine0)) idx
              \<le> content (volumeSecBestSim_dmp (sgmRc_fusion dev0 tile2 dl0 engine0)) idx"
    using fusion_secBest_ge_best [of tile2 dev0 dl0 engine0, THEN conjunct2, THEN conjunct1]
    by blast
  then show ?thesis
    using n fusion_example by simp
qed

text \<open>
  C5. Fusion starts from two volumes that hold 255 in every cell: the loop over the
  target cameras runs from that state. A cell whose depth index lies in no target
  camera's depth range therefore holds 255 in both volumes when the fusion stage is
  done. The depth list has one limit per target camera.
\<close>

theorem uncovered_cells_keep_255:
  assumes "length (getDepthsTcLimits dl) = length (sgmTCams tile)"
    and "\<forall>tci < length (sgmTCams tile).
           \<not> (range_begin (tcDepthRange dl tci) \<le> vz \<and> vz < range_end (tcDepthRange dl tci))"
  shows "(\<forall>idx. content (volumeBestSim_dmp (volumesInitialized tile s)) idx = 255
              \<and> content (volumeSecBestSim_dmp (volumesInitialized tile s)) idx = 255)
       \<and> computeSimilarityVolumes dev tile dl s =
           fold (computeSimilarityVolumes_tc dev tile dl
                   (downscaleROI dev (roi tile) (scale (sgmParams s) * stepXY (sgmParams s)))
                   (rc tile, scale (sgmParams s)))
             [0..<length (sgmTCams tile)] (volumesInitialized tile s)
       \<and> content (volumeBestSim_dmp (sgmRc_fusion dev tile dl s)) [vx, vy, vz] = 255
       \<and> content (volumeSecBestSim_dmp (sgmRc_fusion dev tile dl s)) [vx, vy, vz] = 255"
proof -
  have "\<forall>tci < length (sgmTCams tile).
          \<not> inTile (downscaleROI dev (roi tile) (scale (sgmParams s) * stepXY (sgmParams s)))
              (tcDepthRange dl tci) [vx, vy, vz]"
    using assms(2) by (simp add: inTile_def)
  then have "content (volumeBestSim_dmp (computeSimilarityVolumes dev tile dl s)) [vx, vy, vz] = 255
       \<and> content (volumeSecBestSim_dmp (computeSimilarityVolumes dev tile dl s)) [vx, vy, vz] = 255"
    by (rule computeSimilarityVolumes_untouched)
  then have "content (volumeBestSim_dmp (sgmRc_fusion dev tile dl s)) [vx, vy, vz] = 255
       \<and> content (volumeSecBestSim_dmp (sgmRc_fusion dev tile dl s)) [vx, vy, vz] = 255"
    by (simp add: sgmRc_fusion_def Let_def copyFrom_def)
  then show ?thesis
    by (simp add: volumesInitialized_content computeSimilarityVolumes_loop [symmetric])
qed

theorem uncovered_cells_keep_255_witness:
  "content (volumeBestSim_dmp (sgmRc_fusion dev0 tile2 dl0 engine0)) [0, 0, 3] = 255
   \<and> content (volumeSecBestSim_dmp (sgmRc_fusion dev0 tile2 dl0 engine0)) [0, 0, 3] = 255"
proof -
  have a: "length (getDepthsTcLimits dl0) = length (sgmTCams tile2)"
    by (simp add: dl0_def tile2_def)
  have b: "\<forall>tci < length (sgmTCams tile2).
           \<not> (range_begin (tcDepthRange dl0 tci) \<le> 3 \<and> 3 < range_end (tcDepthRange dl0 tci))"
    by (simp add: dl0_def tile2_def tcDepthRange_def Let_def less_Suc_eq all_conj_distrib
          numeral_2_eq_2)
  show ?thesis
    using uncovered_cells_keep_255
      [OF a b, where s = engine0 and dev = dev0 and vx = 0 and vy = 0]
    by blast
qed

subsection \<open>Filtering and extraction\<close>

text \<open>
  C3. With aggregation disabled, a tile that \<^verbatim>\<open>sgmRc\<close> processes ends with a best
  volume that equals, cell for cell, the second best volume \<open>f\<close> left by the fusion
  stage; the second best volume itself is still that volume, and the depth/similarity
  map is what the extraction kernel computes from the fused volume directly.
\<close>

theorem aggregation_disabled_is_copy:
  assumes "\<not> doSgmOptimizeVolume (sgmParams s)"
    and "f = sgmRc_fusion dev tile dl (sgmRc_upload dl s)"
    and "sgmRc dev tile dl s = Inr s'"
  shows "(\<forall>idx. content (volumeBestSim_dmp s') idx = content (volumeSecBestSim_dmp f) idx)
       \<and> volumeSecBestSim_dmp s' = volumeSecBestSim_dmp f
       \<and> depthSimMap_dmp s' =
           cuda_volumeRetrieveBestDepth dev (depthSimMap_dmp f) (depths_dmp f)
             (volumeSecBestSim_dmp f) (rc tile, 1) (sgmParams f)
             \<lparr>range_begin = 0, range_end = length (getDepths dl)\<rparr>
             (downscaleROI dev (roi tile) (scale (sgmParams f) * stepXY (sgmParams f)))"
proof -
  have p: "\<not> doSgmOptimizeVolume (sgmParams f)"
    using assms(1,2) by (simp add: sgmRc_fusion_sgmParams sgmRc_upload_sgmParams)
  have s': "s' = (retrieveBestDepth dev tile dl (sgmRc_filtering dev tile dl f))
                    \<lparr>allocationLog := allocationLog s @ exportAllocations s\<rparr>"
    using assms(2,3) by (simp add: sgmRc_Inr sgmRc_stages_def)
  have g: "sgmRc_filtering dev tile dl f
      = f\<lparr>volumeBestSim_dmp := copyFrom (volumeBestSim_dmp f) (volumeSecBestSim_dmp f)\<rparr>"
    using p by (simp add: sgmRc_filtering_def)
  have "cuda_volumeRetrieveBestDepth dev (depthSimMap_dmp f) (depths_dmp f)
          (copyFrom (volumeBestSim_dmp f) (volumeSecBestSim_dmp f)) (rc tile, 1) (sgmParams f)
          \<lparr>range_begin = 0, range_end = length (getDepths dl)\<rparr>
          (downscaleROI dev (roi tile) (scale (sgmParams f) * stepXY (sgmParams f)))
      = cuda_volumeRetrieveBestDepth dev (depthSimMap_dmp f) (depths_dmp f)
          (volumeSecBestSim_dmp f) (rc tile, 1) (sgmParams f)
          \<lparr>range_begin = 0, range_end = length (getDepths dl)\<rparr>
          (downscaleROI dev (roi tile) (scale (sgmParams f) * stepXY (sgmParams f)))"
    by (rule cuda_volumeRetrieveBestDepth_cong) (simp add: copyFrom_def)
  then show ?thesis
    unfolding s' g
    by (simp add: retrieveBestDepth_frame retrieveBestDepth_map) (simp add: copyFrom_def)
qed

theorem aggregation_disabled_is_copy_witness:
  "\<not> doSgmOptimizeVolume (sgmParams engine1)
   \<and> (\<forall>idx. content (volumeBestSim_dmp
               (retrieveBestDepth dev0 tile2 dl0 (sgmRc_filtering dev0 tile2 dl0
                  (sgmRc_fusion dev0 tile2 dl0 (sgmRc_upload dl0 engine1))))) idx
           = content (volumeSecBestSim_dmp
               (sgmRc_fusion dev0 tile2 dl0 (sgmRc_upload dl0 engine1))) idx)"
proof -
  have a: "\<not> doSgmOptimizeVolume (sgmParams engine1)"
    by (simp add: engine1_def Sgm_def Let_def)
  have x: "\<not> exportIntermediateResults (sgmParams engine1)"
    by (simp add: engine1_def Sgm_def Let_def sp0_def)
  have b: "sgmRc dev0 tile2 dl0 engine1
      = Inr (retrieveBestDepth dev0 tile2 dl0 (sgmRc_filtering dev0 tile2 dl0
                  (sgmRc_fusion dev0 tile2 dl0 (sgmRc_upload dl0 engine1))))"
    by (simp add: sgmRc_Inr_no_export [OF x] tile2_def dl0_def)
  show ?thesis
    using a aggregation_disabled_is_copy [OF a refl b] by blast
qed

text \<open>
  C6. With aggregation enabled the filtering stage is \<^verbatim>\<open>optimizeSimilarityVolume\<close>.
  It leaves the second best volume as it is, and in every cell of the tile it puts into
  the best buffer the aggregated cost computed from the second best volume, the only
  volume that the result depends on; the cells of the best buffer outside the tile keep
  their contents.
\<close>

theorem aggregation_reads_secBest_writes_best:
  assumes "doSgmOptimizeVolume (sgmParams s)"
  shows "sgmRc_filtering dev tile dl s = optimizeSimilarityVolume dev tile dl s
       \<and> volumeSecBestSim_dmp (sgmRc_filtering dev tile dl s) = volumeSecBestSim_dmp s
       \<and> (\<forall>idx. content (volumeBestSim_dmp (sgmRc_filtering dev tile dl s)) idx =
            (if inTile (downscaleROI dev (roi tile) (scale (sgmParams s) * stepXY (sgmParams s)))
                  \<lparr>range_begin = 0, range_end = length (getDepths dl)\<rparr> idx
             then aggregate dev (content (volumeSecBestSim_dmp s)) (rc tile, scale (sgmParams s))
                    (sgmParams s) (length (getDepths dl))
                    (downscaleROI dev (roi tile) (scale (sgmParams s) * stepXY (sgmParams s))) idx
             else content (volumeBestSim_dmp s) idx))"
  using assms
  by (simp add: sgmRc_filtering_def optimizeSimilarityVolume_frame optimizeSimilarityVolume_best)

theorem aggregation_reads_secBest_writes_best_witness:
  "doSgmOptimizeVolume (sgmParams (sgmRc_fusion dev0 tile2 dl0 engine0))
   \<and> volumeSecBestSim_dmp (sgmRc_filtering dev0 tile2 dl0 (sgmRc_fusion dev0 tile2 dl0 engine0))
       = volumeSecBestSim_dmp (sgmRc_fusion dev0 tile2 dl0 engine0)
   \<and> content (volumeBestSim_dmp (sgmRc_fusion dev0 tile2 dl0 engine0)) [0, 0, 1] = 11
   \<and> content (volumeBestSim_dmp
         (sgmRc_filtering dev0 tile2 dl0 (sgmRc_fusion dev0 tile2 dl0 engine0))) [0, 0, 1] = 21"
proof -
  let ?f = "sgmRc_fusion dev0 tile2 dl0 engine0"
  have p: "sgmParams ?f = sp0"
    by (simp add: sgmRc_fusion_sgmParams engine0_def Sgm_def Let_def)
  have a: "doSgmOptimizeVolume (sgmParams ?f)"
    by (simp add: p sp0_def)
  have i: "inTile (downscaleROI dev0 (roi tile2) (scale sp0 * stepXY sp0))
             \<lparr>range_begin = 0, range_end = length (getDepths dl0)\<rparr> [0, 0, 1]"
    by (simp add: inTile_def dev0_def tile2_def roi0_def sp0_def dl0_def range_size_def)
  have g: "aggregate dev0 = (\<lambda>vol rcCam sp n r idx. vol idx)"
    by (simp add: dev0_def)
  have v: "content (volumeBestSim_dmp ?f) [0, 0, 1] = 11"
    "content (volumeSecBestSim_dmp ?f) [0, 0, 1] = 21"
    using fusion_example by simp_all
  note t = aggregation_reads_secBest_writes_best [OF a, of dev0 tile2 dl0]
  have "content (volumeBestSim_dmp (sgmRc_filtering dev0 tile2 dl0 ?f)) [0, 0, 1]
      = aggregate dev0 (content (volumeSecBestSim_dmp ?f)) (rc tile2, scale sp0) sp0
          (length (getDepths dl0)) (downscaleROI dev0 (roi tile2) (scale sp0 * stepXY sp0))
          [0, 0, 1]"
    using t [THEN conjunct2, THEN conjunct2, rule_format, of "[0, 0, 1]"] i
    by (simp only: p if_True)
  then show ?thesis
    using a v t [THEN conjunct2, THEN conjunct1] by (simp add: g)
qed

subsection \<open>Buffers and memory accounting\<close>

text \<open>
  C7, as stated: the constructor allocates every buffer, the map and the volumes with
  extents the ceilings of tile width and height over \<open>scale * stepXY\<close>, and processing a
  tile never allocates a buffer. Two engines refute it. With
  \<^verbatim>\<open>exportIntermediateResults\<close> set, \<open>engine2\<close> processes \<open>tile2\<close> and
  \<^verbatim>\<open>exportVolumeInformation\<close> allocates a host buffer of the size of a volume twice,
  once per exported volume. And for a tile width of \<open>2 ^ 24 + 1\<close> with \<open>scale\<close> and
  \<open>stepXY\<close> 1 the ceiling of the quotient is 16777217, while the constructor, which divides
  in single precision, allocates a map 16777216 wide.
\<close>

theorem sgmRc_export_allocates_counterexample:
  "\<not> isl (sgmRc dev0 tile2 dl0 engine2)
   \<and> allocationLog (projr (sgmRc dev0 tile2 dl0 engine2))
       = allocationLog engine2
         @ [(''volumeSim_hmh'', [17, 12, 32]), (''volumeSim_hmh'', [17, 12, 32])]
   \<and> allocationLog (projr (sgmRc dev0 tile2 dl0 engine2)) \<noteq> allocationLog engine2
   \<and> nat \<lceil>real (tp_width tp1) / real (scale sp1 * stepXY sp1)\<rceil> = 16777217
   \<and> getSize (depthSimMap_dmp (Sgm dev0 mvp0 tp1 sp1)) = [16777216, 48]"
proof -
  have n: "sgmTCams tile2 \<noteq> []" "getDepths dl0 \<noteq> []"
    by (simp_all add: tile2_def dl0_def)
  have x: "exportAllocations engine2
      = [(''volumeSim_hmh'', [17, 12, 32]), (''volumeSim_hmh'', [17, 12, 32])]"
    using engine0_extents
    by (simp add: exportAllocations_def engine2_def Sgm_def Let_def allocate_def
          size_t_of_int_def) (simp add: sp0_def)
  have "getSize (depthSimMap_dmp (Sgm dev0 mvp0 tp1 sp1)) = [16777216, 48]"
    using wide_tile_extents by (simp add: Sgm_def Let_def allocate_def size_t_of_int_def)
  moreover have "nat \<lceil>real (tp_width tp1) / real (scale sp1 * stepXY sp1)\<rceil> = 16777217"
    by (simp add: tp1_def sp1_def)
  ultimately show ?thesis
    by (simp add: sgmRc_result [OF n] x)
qed

text \<open>
  C7, amended: the constructor allocates every buffer of the engine once, with extents
  taken from the configuration. For \<open>scale\<close> and \<open>stepXY\<close> at least 1 with a product below
  \<open>2 ^ 24\<close> and a tile width and height below \<open>2 ^ 24\<close>, where the product in
  \<^verbatim>\<open>int\<close> and the division in single precision are exact enough, and with
  maxTileWidth and maxTileHeight the ceilings of tile width and height over
  \<open>scale * stepXY\<close>, which are the integer ceiling divisions: the two depth buffers (host
  staging and device) have maxDepths entries, the depth/similarity map is maxTileWidth by
  maxTileHeight, the two volumes are maxTileWidth by maxTileHeight by maxDepths, and, only
  when \<^verbatim>\<open>doSgmOptimizeVolume\<close> is set, the two slice buffers are the larger tile side
  by maxDepths and the axis buffer the larger tile side by 1; otherwise these three stay
  unallocated; and these are all the allocations of the constructor. Processing a tile,
  whether it returns or throws, leaves the allocation of each of the engine's eight
  buffers as it was. The only allocations that the engine's code makes while a tile is
  processed are the two temporary host buffers of \<^verbatim>\<open>exportVolumeInformation\<close>,
  each of the size of a volume, and only when \<^verbatim>\<open>exportIntermediateResults\<close> is
  set; without it the engine's code allocates nothing while it processes a tile.
\<close>

theorem engine_buffers_allocated_at_construction:
  assumes "e = Sgm dev mvp tp sp"
    and "1 \<le> scale sp" and "1 \<le> stepXY sp" and "scale sp * stepXY sp < 2 ^ 24"
    and "tp_width tp < 2 ^ 24" and "tp_height tp < 2 ^ 24"
    and "maxTileWidth = nat \<lceil>real (tp_width tp) / real (scale sp * stepXY sp)\<rceil>"
    and "maxTileHeight = nat \<lceil>real (tp_height tp) / real (scale sp * stepXY sp)\<rceil>"
  shows "maxTileWidth = (tp_width tp + scale sp * stepXY sp - 1) div (scale sp * stepXY sp)
       \<and> maxTileHeight = (tp_height tp + scale sp * stepXY sp - 1) div (scale sp * stepXY sp)
       \<and> getSize (depths_hmh e) = [maxDepths sp, 1]
       \<and> getSize (depths_dmp e) = [maxDepths sp, 1]
       \<and> getSize (depthSimMap_dmp e) = [maxTileWidth, maxTileHeight]
       \<and> getSize (volumeBestSim_dmp e) = [maxTileWidth, maxTileHeight, maxDepths sp]
       \<and> getSize (volumeSecBestSim_dmp e) = [maxTileWidth, maxTileHeight, maxDepths sp]
       \<and> (doSgmOptimizeVolume sp \<longrightarrow>
            getSize (volumeSliceAccA_dmp e) = [max maxTileWidth maxTileHeight, maxDepths sp]
            \<and> getSize (volumeSliceAccB_dmp e) = [max maxTileWidth maxTileHeight, maxDepths sp]
            \<and> getSize (volumeAxisAcc_dmp e) = [max maxTileWidth maxTileHeight, 1])
       \<and> (\<not> doSgmOptimizeVolume sp \<longrightarrow>
            volumeSliceAccA_dmp e = unallocated sizeof_TSimAcc (freshTSimAcc dev)
            \<and> volumeSliceAccB_dmp e = unallocated sizeof_TSimAcc (freshTSimAcc dev)
            \<and> volumeAxisAcc_dmp e = unallocated sizeof_TSimAcc (freshTSimAcc dev))
       \<and> allocationLog e =
            [(''_depths_hmh'', [maxDepths sp, 1]), (''_depths_dmp'', [maxDepths sp, 1]),
             (''_depthSimMap_dmp'', [maxTileWidth, maxTileHeight]),
             (''_volumeBestSim_dmp'', [maxTileWidth, maxTileHeight, maxDepths sp]),
             (''_volumeSecBestSim_dmp'', [maxTileWidth, maxTileHeight, maxDepths sp])]
            @ (if doSgmOptimizeVolume sp
               then [(''_volumeSliceAccA_dmp'', [max maxTileWidth maxTileHeight, maxDepths sp]),
                     (''_volumeSliceAccB_dmp'', [max maxTileWidth maxTileHeight, maxDepths sp]),
                     (''_volumeAxisAcc_dmp'', [max maxTileWidth maxTileHeight, 1])]
               else [])
       \<and> (\<forall>dev' tile dl s s' err.
            sgmRc dev' tile dl s = Inr s' \<or> sgmRc dev' tile dl s = Inl (err, s')
              \<longrightarrow> allocations s' = allocations s)
       \<and> (\<forall>dev' tile dl s s'.
            sgmRc dev' tile dl s = Inr s'
              \<longrightarrow> allocationLog s' =
                    allocationLog s
                    @ (if exportIntermediateResults (sgmParams s)
                       then [(''volumeSim_hmh'', getSize (volumeSecBestSim_dmp s)),
                             (''volumeSim_hmh'', getSize (volumeBestSim_dmp s))]
                       else []))"
proof -
  let ?d = "int_mul (int (scale sp)) (int (stepXY sp))"
  note w = tile_extent [OF assms(2,3,4,5)]
  note h = tile_extent [OF assms(2,3,4,6)]
  have sw: "size_t_of_int (maxTileDim (tp_width tp) ?d) = maxTileWidth"
    and sh: "size_t_of_int (maxTileDim (tp_height tp) ?d) = maxTileHeight"
    using w(2) h(2) assms(7,8) by simp_all
  have "size_t_of_int (max (maxTileDim (tp_width tp) ?d) (maxTileDim (tp_height tp) ?d))
      = max (nat (maxTileDim (tp_width tp) ?d)) (nat (maxTileDim (tp_height tp) ?d))"
    using w(3) h(3) w(1,2) h(1,2) by (intro tile_side) simp_all
  then have sm: "size_t_of_int (max (maxTileDim (tp_width tp) ?d) (maxTileDim (tp_height tp) ?d))
      = max maxTileWidth maxTileHeight"
    using w(1) h(1) assms(7,8) by simp
  have a: "\<forall>dev' tile dl s s' err.
            sgmRc dev' tile dl s = Inr s' \<or> sgmRc dev' tile dl s = Inl (err, s')
              \<longrightarrow> allocations s' = allocations s"
    using sgmRc_allocations by blast
  have l: "\<forall>dev' tile dl s s'.
            sgmRc dev' tile dl s = Inr s'
              \<longrightarrow> allocationLog s' =
                    allocationLog s
                    @ (if exportIntermediateResults (sgmParams s)
                       then [(''volumeSim_hmh'', getSize (volumeSecBestSim_dmp s)),
                             (''volumeSim_hmh'', getSize (volumeBestSim_dmp s))]
                       else [])"
    using sgmRc_allocationLog by (simp add: exportAllocations_def)
  have "0 < scale sp * stepXY sp"
    using assms(2,3) by simp
  then have c: "maxTileWidth = (tp_width tp + scale sp * stepXY sp - 1) div (scale sp * stepXY sp)"
    "maxTileHeight = (tp_height tp + scale sp * stepXY sp - 1) div (scale sp * stepXY sp)"
    using assms(7,8) by (simp_all only: ceil_div_nat)
  have e: "getSize (depths_hmh e) = [maxDepths sp, 1]
       \<and> getSize (depths_dmp e) = [maxDepths sp, 1]
       \<and> getSize (depthSimMap_dmp e) = [maxTileWidth, maxTileHeight]
       \<and> getSize (volumeBestSim_dmp e) = [maxTileWidth, maxTileHeight, maxDepths sp]
       \<and> getSize (volumeSecBestSim_dmp e) = [maxTileWidth, maxTileHeight, maxDepths sp]
       \<and> (doSgmOptimizeVolume sp \<longrightarrow>
            getSize (volumeSliceAccA_dmp e) = [max maxTileWidth maxTileHeight, maxDepths sp]
            \<and> getSize (volumeSliceAccB_dmp e) = [max maxTileWidth maxTileHeight, maxDepths sp]
            \<and> getSize (volumeAxisAcc_dmp e) = [max maxTileWidth maxTileHeight, 1])
       \<and> (\<not> doSgmOptimizeVolume sp \<longrightarrow>
            volumeSliceAccA_dmp e = unallocated sizeof_TSimAcc (freshTSimAcc dev)
            \<and> volumeSliceAccB_dmp e = unallocated sizeof_TSimAcc (freshTSimAcc dev)
            \<and> volumeAxisAcc_dmp e = unallocated sizeof_TSimAcc (freshTSimAcc dev))
       \<and> allocationLog e =
            [(''_depths_hmh'', [maxDepths sp, 1]), (''_depths_dmp'', [maxDepths sp, 1]),
             (''_depthSimMap_dmp'', [maxTileWidth, maxTileHeight]),
             (''_volumeBestSim_dmp'', [maxTileWidth, maxTileHeight, maxDepths sp]),
             (''_volumeSecBestSim_dmp'', [maxTileWidth, maxTileHeight, maxDepths sp])]
            @ (if doSgmOptimizeVolume sp
               then [(''_volumeSliceAccA_dmp'', [max maxTileWidth maxTileHeight, maxDepths sp]),
                     (''_volumeSliceAccB_dmp'', [max maxTileWidth maxTileHeight, maxDepths sp]),
                     (''_volumeAxisAcc_dmp'', [max maxTileWidth maxTileHeight, 1])]
               else [])"
    by (simp add: assms(1) Sgm_def Let_def allocate_def allocateHost_def sw sh sm)
  show ?thesis
    using c e a l by blast
qed

theorem engine_buffers_allocated_at_construction_witness:
  "getSize (depths_hmh engine0) = [32, 1]
   \<and> getSize (depths_dmp engine0) = [32, 1]
   \<and> getSize (depthSimMap_dmp engine0) = [17, 12]
   \<and> getSize (volumeBestSim_dmp engine0) = [17, 12, 32]
   \<and> getSize (volumeSecBestSim_dmp engine0) = [17, 12, 32]
   \<and> getSize (volumeSliceAccA_dmp engine0) = [17, 32]
   \<and> getSize (volumeSliceAccB_dmp engine0) = [17, 32]
   \<and> getSize (volumeAxisAcc_dmp engine0) = [17, 1]
   \<and> allocationLog engine0 =
        [(''_depths_hmh'', [32, 1]), (''_depths_dmp'', [32, 1]),
         (''_depthSimMap_dmp'', [17, 12]),
         (''_volumeBestSim_dmp'', [17, 12, 32]), (''_volumeSecBestSim_dmp'', [17, 12, 32]),
         (''_volumeSliceAccA_dmp'', [17, 32]), (''_volumeSliceAccB_dmp'', [17, 32]),
         (''_volumeAxisAcc_dmp'', [17, 1])]
   \<and> allocations (retrieveBestDepth dev0 tile2 dl0 (sgmRc_filtering dev0 tile2 dl0
                  (sgmRc_fusion dev0 tile2 dl0 (sgmRc_upload dl0 engine0)))) = allocations engine0
   \<and> allocationLog (retrieveBestDepth dev0 tile2 dl0 (sgmRc_filtering dev0 tile2 dl0
                  (sgmRc_fusion dev0 tile2 dl0 (sgmRc_upload dl0 engine0)))) = allocationLog engine0"
proof -
  have w: "(17::nat) = nat \<lceil>real (tp_width tp0) / real (scale sp0 * stepXY sp0)\<rceil>"
    by (simp add: tp0_def sp0_def)
  have h: "(12::nat) = nat \<lceil>real (tp_height tp0) / real (scale sp0 * stepXY sp0)\<rceil>"
    by (simp add: tp0_def sp0_def)
  have x: "\<not> exportIntermediateResults (sgmParams engine0)"
    by (simp add: engine0_def Sgm_def Let_def sp0_def)
  have b: "sgmRc dev0 tile2 dl0 engine0
      = Inr (retrieveBestDepth dev0 tile2 dl0 (sgmRc_filtering dev0 tile2 dl0
                  (sgmRc_fusion dev0 tile2 dl0 (sgmRc_upload dl0 engine0))))"
    by (simp add: sgmRc_Inr_no_export [OF x] tile2_def dl0_def)
  have o: "doSgmOptimizeVolume sp0" "maxDepths sp0 = 32" by (simp_all add: sp0_def)
  have c: "1 \<le> scale sp0" "1 \<le> stepXY sp0" "scale sp0 * stepXY sp0 < 2 ^ 24"
    "tp_width tp0 < 2 ^ 24" "tp_height tp0 < 2 ^ 24"
    by (simp_all add: sp0_def tp0_def)
  show ?thesis
    using engine_buffers_allocated_at_construction [OF engine0_def c w h] b o x by simp
qed

text \<open>
  C8. For one and the same device, tile geometry and configuration, both memory queries
  report at least as much with \<^verbatim>\<open>doSgmOptimizeVolume\<close> set as without it: the byte
  total with the flag is the total without it plus the sizes of the two slice buffers
  and of the axis buffer.
\<close>

theorem consumption_monotone_in_optimize_flag:
  "getDeviceMemoryConsumption (Sgm dev mvp tp (sp\<lparr>doSgmOptimizeVolume := False\<rparr>))
     \<le> getDeviceMemoryConsumption (Sgm dev mvp tp (sp\<lparr>doSgmOptimizeVolume := True\<rparr>))
   \<and> getDeviceMemoryConsumptionUnpadded (Sgm dev mvp tp (sp\<lparr>doSgmOptimizeVolume := False\<rparr>))
     \<le> getDeviceMemoryConsumptionUnpadded (Sgm dev mvp tp (sp\<lparr>doSgmOptimizeVolume := True\<rparr>))
   \<and> deviceBytesPadded (Sgm dev mvp tp (sp\<lparr>doSgmOptimizeVolume := True\<rparr>))
       = deviceBytesPadded (Sgm dev mvp tp (sp\<lparr>doSgmOptimizeVolume := False\<rparr>))
         + getBytesPadded (volumeSliceAccA_dmp (Sgm dev mvp tp (sp\<lparr>doSgmOptimizeVolume := True\<rparr>)))
         + getBytesPadded (volumeSliceAccB_dmp (Sgm dev mvp tp (sp\<lparr>doSgmOptimizeVolume := True\<rparr>)))
         + getBytesPadded (volumeAxisAcc_dmp (Sgm dev mvp tp (sp\<lparr>doSgmOptimizeVolume := True\<rparr>)))
   \<and> deviceBytesUnpadded (Sgm dev mvp tp (sp\<lparr>doSgmOptimizeVolume := True\<rparr>))
       = deviceBytesUnpadded (Sgm dev mvp tp (sp\<lparr>doSgmOptimizeVolume := False\<rparr>))
         + getBytesUnpadded (volumeSliceAccA_dmp (Sgm dev mvp tp (sp\<lparr>doSgmOptimizeVolume := True\<rparr>)))
         + getBytesUnpadded (volumeSliceAccB_dmp (Sgm dev mvp tp (sp\<lparr>doSgmOptimizeVolume := True\<rparr>)))
         + getBytesUnpadded (volumeAxisAcc_dmp (Sgm dev mvp tp (sp\<lparr>doSgmOptimizeVolume := True\<rparr>)))"
proof -
  have p: "deviceBytesPadded (Sgm dev mvp tp (sp\<lparr>doSgmOptimizeVolume := True\<rparr>))
       = deviceBytesPadded (Sgm dev mvp tp (sp\<lparr>doSgmOptimizeVolume := False\<rparr>))
         + getBytesPadded (volumeSliceAccA_dmp (Sgm dev mvp tp (sp\<lparr>doSgmOptimizeVolume := True\<rparr>)))
         + getBytesPadded (volumeSliceAccB_dmp (Sgm dev mvp tp (sp\<lparr>doSgmOptimizeVolume := True\<rparr>)))
         + getBytesPadded (volumeAxisAcc_dmp (Sgm dev mvp tp (sp\<lparr>doSgmOptimizeVolume := True\<rparr>)))"
    by (simp add: deviceBytesPadded_def Sgm_def Let_def)
  have u: "deviceBytesUnpadded (Sgm dev mvp tp (sp\<lparr>doSgmOptimizeVolume := True\<rparr>))
       = deviceBytesUnpadded (Sgm dev mvp tp (sp\<lparr>doSgmOptimizeVolume := False\<rparr>))
         + getBytesUnpadded (volumeSliceAccA_dmp (Sgm dev mvp tp (sp\<lparr>doSgmOptimizeVolume := True\<rparr>)))
         + getBytesUnpadded (volumeSliceAccB_dmp (Sgm dev mvp tp (sp\<lparr>doSgmOptimizeVolume := True\<rparr>)))
         + getBytesUnpadded (volumeAxisAcc_dmp (Sgm dev mvp tp (sp\<lparr>doSgmOptimizeVolume := True\<rparr>)))"
    by (simp add: deviceBytesUnpadded_def Sgm_def Let_def)
  have "deviceBytesPadded (Sgm dev mvp tp (sp\<lparr>doSgmOptimizeVolume := False\<rparr>))
      \<le> deviceBytesPadded (Sgm dev mvp tp (sp\<lparr>doSgmOptimizeVolume := True\<rparr>))"
    using p by linarith
  moreover have "deviceBytesUnpadded (Sgm dev mvp tp (sp\<lparr>doSgmOptimizeVolume := False\<rparr>))
      \<le> deviceBytesUnpadded (Sgm dev mvp tp (sp\<lparr>doSgmOptimizeVolume := True\<rparr>))"
    using u by linarith
  ultimately show ?thesis
    using p u
    by (simp add: getDeviceMemoryConsumption_def getDeviceMemoryConsumptionUnpadded_def
          divide_right_mono)
qed

text \<open>
  C9, as stated: the two queries return the padded and the unpadded byte total over all
  buffers that the constructor allocates, the host staging buffer of the depths
  included, divided by \<open>1024 * 1024\<close>. The engine \<open>engine0\<close> refutes it: its queries
  leave out the 128 bytes of its host staging buffer.
\<close>

theorem consumption_omits_host_staging_counterexample:
  "\<not> (getDeviceMemoryConsumption engine0 = real (ownedBytesPadded engine0) / (1024 * 1024)
      \<and> getDeviceMemoryConsumptionUnpadded engine0
          = real (ownedBytesUnpadded engine0) / (1024 * 1024))"
proof -
  have "ownedBytesUnpadded engine0 = deviceBytesUnpadded engine0 + 128"
    by (simp add: ownedBytesUnpadded_def deviceBytesUnpadded_def engine0_def Sgm_def Let_def
          sp0_def getBytesUnpadded_def allocateHost_def sizeof_float_def)
  then show ?thesis
    by (simp add: getDeviceMemoryConsumptionUnpadded_def)
qed

text \<open>
  C9, amended: for a constructed engine the two queries return the padded and the
  unpadded byte total over the buffers it holds in device memory (the device depth
  buffer, the depth/similarity map, the two volumes, the two slice buffers and the axis
  buffer, the last three empty unless \<^verbatim>\<open>doSgmOptimizeVolume\<close> is set), divided by
  \<open>1024 * 1024\<close>. The host staging buffer is not counted: the total over all buffers
  exceeds the reported one by that buffer's size.
\<close>

theorem consumption_counts_device_buffers:
  "getDeviceMemoryConsumption (Sgm dev mvp tp sp)
     = real (deviceOwnedBytesPadded (Sgm dev mvp tp sp)) / (1024 * 1024)
   \<and> getDeviceMemoryConsumptionUnpadded (Sgm dev mvp tp sp)
     = real (deviceOwnedBytesUnpadded (Sgm dev mvp tp sp)) / (1024 * 1024)
   \<and> ownedBytesPadded (Sgm dev mvp tp sp)
     = deviceOwnedBytesPadded (Sgm dev mvp tp sp) + getBytesPadded (depths_hmh (Sgm dev mvp tp sp))
   \<and> ownedBytesUnpadded (Sgm dev mvp tp sp)
     = deviceOwnedBytesUnpadded (Sgm dev mvp tp sp)
       + getBytesUnpadded (depths_hmh (Sgm dev mvp tp sp))"
proof -
  have "deviceBytesPadded (Sgm dev mvp tp sp) = deviceOwnedBytesPadded (Sgm dev mvp tp sp)"
    by (simp add: deviceBytesPadded_def deviceOwnedBytesPadded_def Sgm_def Let_def
          unallocated_def getBytesPadded_def)
  moreover have "deviceBytesUnpadded (Sgm dev mvp tp sp)
      = deviceOwnedBytesUnpadded (Sgm dev mvp tp sp)"
    by (simp add: deviceBytesUnpadded_def deviceOwnedBytesUnpadded_def Sgm_def Let_def
          unallocated_def getBytesUnpadded_def)
  ultimately show ?thesis
    by (simp add: getDeviceMemoryConsumption_def getDeviceMemoryConsumptionUnpadded_def
          ownedBytesPadded_def ownedBytesUnpadded_def deviceOwnedBytesPadded_def
          deviceOwnedBytesUnpadded_def)
qed

subsection \<open>Camera cache\<close>

text \<open>
  C10. Depth extraction requests the reference camera at scale 1, whatever the
  configured scale. A tile that \<^verbatim>\<open>sgmRc\<close> processes adds these requests, in order:
  the reference camera at the configured scale, every target camera at that scale, the
  reference camera at that scale once more if aggregation is enabled, and the reference
  camera at scale 1. With a configured scale above 1 the reference camera is therefore
  requested under two different keys in one call.
\<close>

theorem reference_camera_requested_at_two_scales:
  assumes "sgmRc dev tile dl s = Inr s'" and "1 < scale (sgmParams s)"
  shows "(\<forall>t. cacheRequests (retrieveBestDepth dev tile dl t) = cacheRequests t @ [(rc tile, 1)])
       \<and> cacheRequests s' =
           cacheRequests s @ [(rc tile, scale (sgmParams s))]
           @ map (\<lambda>tc. (tc, scale (sgmParams s))) (sgmTCams tile)
           @ (if doSgmOptimizeVolume (sgmParams s) then [(rc tile, scale (sgmParams s))] else [])
           @ [(rc tile, 1)]
       \<and> (rc tile, scale (sgmParams s)) \<in> set (drop (length (cacheRequests s)) (cacheRequests s'))
       \<and> (rc tile, 1) \<in> set (drop (length (cacheRequests s)) (cacheRequests s'))
       \<and> (rc tile, scale (sgmParams s)) \<noteq> (rc tile, 1)"
proof -
  have s': "s' = (retrieveBestDepth dev tile dl
              (sgmRc_filtering dev tile dl (sgmRc_fusion dev tile dl (sgmRc_upload dl s))))
              \<lparr>allocationLog := allocationLog s @ exportAllocations s\<rparr>"
    using assms(1) by (simp add: sgmRc_Inr sgmRc_stages_def)
  have r: "cacheRequests s' =
           cacheRequests s @ [(rc tile, scale (sgmParams s))]
           @ map (\<lambda>tc. (tc, scale (sgmParams s))) (sgmTCams tile)
           @ (if doSgmOptimizeVolume (sgmParams s) then [(rc tile, scale (sgmParams s))] else [])
           @ [(rc tile, 1)]"
    unfolding s'
    by (simp add: retrieveBestDepth_frame sgmRc_filtering_requests sgmRc_fusion_requests
          sgmRc_fusion_sgmParams sgmRc_upload_sgmParams sgmRc_upload_requests)
  show ?thesis
    using assms(2) by (simp add: r retrieveBestDepth_frame)
qed

theorem reference_camera_requested_at_two_scales_witness:
  "1 < scale (sgmParams engine0)
   \<and> cacheRequests (retrieveBestDepth dev0 tile2 dl0 (sgmRc_filtering dev0 tile2 dl0
       (sgmRc_fusion dev0 tile2 dl0 (sgmRc_upload dl0 engine0))))
     = [(0, 2), (1, 2), (2, 2), (0, 2), (0, 1)]"
proof -
  have b: "sgmRc dev0 tile2 dl0 engine0
      = Inr (retrieveBestDepth dev0 tile2 dl0 (sgmRc_filtering dev0 tile2 dl0
                  (sgmRc_fusion dev0 tile2 dl0 (sgmRc_upload dl0 engine0))))"
    by (simp add: sgmRc_Inr_no_export engine0_def Sgm_def Let_def sp0_def tile2_def dl0_def)
  have p: "sgmParams engine0 = sp0" "cacheRequests engine0 = []"
    by (simp_all add: engine0_def Sgm_def Let_def)
  have c: "1 < scale (sgmParams engine0)" by (simp add: p sp0_def)
  show ?thesis
    using c reference_camera_requested_at_two_scales [OF b c, THEN conjunct2, THEN conjunct1]
    by (simp add: p sp0_def tile2_def)
qed

end
